theory Spec2Isabelle
  imports Main
begin

section \<open>Values, dictionaries and strings\<close>

text \<open>
  Property values as the transformation handles them: \<open>None\<close>, strings, integers,
  booleans and lists of values; a float is stored like any other scalar and has no
  constructor of its own here. A string is the list of its UTF-8 bytes; the patterns the
  code searches for are ASCII, so that searching bytes and searching code points agree.
  A Python \<open>dict\<close> is an association list with distinct keys in insertion order.
\<close>

datatype pval = PNone | PStr string | PInt int | PBool bool | PList "pval list"

type_synonym dict = "(string \<times> pval) list"

datatype py_exc =
    UnboundLocalError
  | KeyError string
  | StopIteration
  | TypeError
  | ValueError
  | Raised string
  | Unmodelled

text \<open>\<open>d[k] = v\<close>: an existing key keeps its position, a new key goes to the end.\<close>

fun dict_set :: "string \<Rightarrow> pval \<Rightarrow> dict \<Rightarrow> dict" where
  "dict_set k v [] = [(k, v)]"
| "dict_set k v ((k', v') # d) =
     (if k' = k then (k', v) # d else (k', v') # dict_set k v d)"

text \<open>\<open>a | b\<close>: the entries of \<open>b\<close> are stored into a copy of \<open>a\<close>, in order.\<close>

definition dict_union :: "dict \<Rightarrow> dict \<Rightarrow> dict" where
  "dict_union a b = fold (\<lambda>(k, v). dict_set k v) b a"

text \<open>\<open>d.get(k)\<close>: \<open>None\<close> when the key is missing.\<close>

definition dict_get :: "dict \<Rightarrow> string \<Rightarrow> pval" where
  "dict_get d k = (case map_of d k of None \<Rightarrow> PNone | Some v \<Rightarrow> v)"

text \<open>\<open>del d[k]\<close>: raises \<open>KeyError\<close> when the key is missing.\<close>

definition dict_del :: "string \<Rightarrow> dict \<Rightarrow> py_exc + dict" where
  "dict_del k d =
     (if k \<in> fst ` set d then Inr (filter (\<lambda>(k', v). k' \<noteq> k) d) else Inl (KeyError k))"

text \<open>\<open>str(n)\<close> of a natural number: its decimal digits.\<close>

definition digit_char :: "nat \<Rightarrow> char" where
  "digit_char d = ''0123456789'' ! d"

fun str_nat :: "nat \<Rightarrow> string" where
  "str_nat n = (if n < 10 then [digit_char n] else str_nat (n div 10) @ [digit_char (n mod 10)])"

declare str_nat.simps [simp del]

definition str_int :: "int \<Rightarrow> string" where
  "str_int i = (if i < 0 then ''-'' @ str_nat (nat (- i)) else str_nat (nat i))"

text \<open>\<open>s.lower()\<close> on ASCII strings, which the labels of the models are.\<close>

definition lower_char :: "char \<Rightarrow> char" where
  "lower_char c =
     (case map_of (zip ''ABCDEFGHIJKLMNOPQRSTUVWXYZ'' ''abcdefghijklmnopqrstuvwxyz'') c of
        Some l \<Rightarrow> l
      | None \<Rightarrow> c)"

definition lower :: "string \<Rightarrow> string" where
  "lower s = map lower_char s"

text \<open>
  \<open>s.replace(old, new)\<close> for a non-empty \<open>old\<close>: the occurrences are found from the
  left and do not overlap.
\<close>

function replace :: "string \<Rightarrow> string \<Rightarrow> string \<Rightarrow> string" where
  "replace old new [] = []"
| "replace old new (c # s) =
     (if old \<noteq> [] \<and> take (length old) (c # s) = old
      then new @ replace old new (drop (length old) (c # s))
      else c # replace old new s)"
  by pat_completeness auto
termination
  by (relation "measure (\<lambda>(old, new, s). length s)") auto

section \<open>queries.py\<close>

subsection \<open>e\<close>

text \<open>
  \<^verbatim>\<open>return string.replace("\\u0060", "`").replace("`", "``")\<close>
  The first pattern is the six characters backslash, u, 0, 0, 6, 0.
\<close>

definition u0060 :: string where
  "u0060 = CHR 0x5C # ''u0060''"

definition e :: "string \<Rightarrow> string" where
  "e string = replace ''`'' ''``'' (replace u0060 ''`'' string)"

subsection \<open>batch_merge_node and batch_merge_node_relationship\<close>

text \<open>
  \<open>session.execute_write\<close> is the driver's transaction primitive. Its \<open>k\<close>-th call
  (counted from 0) on a batch either commits and returns a summary, raises
  \<open>neo4j.exceptions.TransientError\<close>, or raises another exception.
\<close>

datatype 'r exec_outcome = Committed 'r | TransientError | OtherError string

datatype log_entry = LogInfo string | LogWarning string | LogError string

datatype event =
    Attempt
  | Sleep nat
  | Log log_entry

definition deadlock_info :: string where
  "deadlock_info = ''Neo4j deadlock occurred. Will retry three times...''"

definition deadlock_error :: string where
  "deadlock_error = ''Neo4j deadlock occurred and could not be resolved after three attempts. Consider disabling parallel processing.''"

text \<open>
  The \<open>while True\<close> loop of both functions. \<open>k\<close> counts the calls of
  \<open>execute_write\<close>, \<open>n\<close> is the source's counter, the trace records what the loop
  does. The loop ends with \<open>result\<close> bound (\<open>Some\<close>), with \<open>result\<close> unbound after
  the \<open>break\<close> of the \<open>else\<close> branch (\<open>None\<close>), or with an exception passed on.
\<close>

function retry_loop ::
  "(nat \<Rightarrow> 'r exec_outcome) \<Rightarrow> nat \<Rightarrow> nat \<Rightarrow> event list \<Rightarrow> (py_exc + 'r option) \<times> event list" where
  "retry_loop execute_write k n tr =
     (case execute_write k of
        Committed r \<Rightarrow> (Inr (Some r), tr @ [Attempt])
      | TransientError \<Rightarrow>
          (if n < 3
           then retry_loop execute_write (k + 1) (n + 1)
                  (tr @ [Attempt] @ (if n = 0 then [Log (LogInfo deadlock_info)] else []) @ [Sleep 1])
           else (Inr None, tr @ [Attempt, Log (LogError deadlock_error)]))
      | OtherError x \<Rightarrow> (Inl (Raised x), tr @ [Attempt]))"
  by pat_completeness auto
termination
  by (relation "measure (\<lambda>(execute_write, k, n, tr). 3 - n)") auto

declare retry_loop.simps [simp del]

text \<open>\<open>return result\<close>: reading the unbound local raises \<open>UnboundLocalError\<close>.\<close>

definition return_result :: "(py_exc + 'r option) \<times> event list \<Rightarrow> (py_exc + 'r) \<times> event list" where
  "return_result out =
     (case fst out of
        Inl exc \<Rightarrow> (Inl exc, snd out)
      | Inr None \<Rightarrow> (Inl UnboundLocalError, snd out)
      | Inr (Some r) \<Rightarrow> (Inr r, snd out))"

definition batch_merge_node ::
  "'m list \<Rightarrow> ('m list \<Rightarrow> nat \<Rightarrow> 'r exec_outcome) \<Rightarrow> (py_exc + 'r) \<times> event list" where
  "batch_merge_node node_merges execute_write =
     return_result (retry_loop (execute_write node_merges) 0 0 [])"

definition batch_merge_node_relationship ::
  "'m list \<Rightarrow> ('m list \<Rightarrow> nat \<Rightarrow> 'r exec_outcome) \<Rightarrow> (py_exc + 'r) \<times> event list" where
  "batch_merge_node_relationship node_relationship_merges execute_write =
     return_result (retry_loop (execute_write node_relationship_merges) 0 0 [])"

subsection \<open>Attempts, doubled backticks and occurrences, as the specification words them\<close>

text \<open>
  The number of attempts in a trace; a string with each backtick doubled; whether a
  pattern occurs in a string.
\<close>

definition attempts :: "event list \<Rightarrow> nat" where
  "attempts tr = length (filter (\<lambda>ev. ev = Attempt) tr)"

definition doubled :: "string \<Rightarrow> string" where
  "doubled s = concat (map (\<lambda>c. if c = CHR ''`'' then ''``'' else [c]) s)"

fun occurs :: "string \<Rightarrow> string \<Rightarrow> bool" where
  "occurs old [] = (old = [])"
| "occurs old (c # s) = (take (length old) (c # s) = old \<or> occurs old s)"

section \<open>model_common.py\<close>

subsection \<open>Arguments and requests\<close>

text \<open>
  Many parameters are one object or a list of objects
  (\<^verbatim>\<open>if type(x) is not list: x = [x]\<close>); where \<open>None\<close> is allowed too the
  parameter is an \<open>option\<close> of this type.
\<close>

datatype 'a one_or_list = One 'a | Lst "'a list"

definition to_list :: "'a one_or_list \<Rightarrow> 'a list" where
  "to_list x = (case x of One a \<Rightarrow> [a] | Lst as \<Rightarrow> as)"

definition of_str :: "string option \<Rightarrow> pval" where
  "of_str x = (case x of None \<Rightarrow> PNone | Some s \<Rightarrow> PStr s)"

definition of_bool :: "bool option \<Rightarrow> pval" where
  "of_bool x = (case x of None \<Rightarrow> PNone | Some b \<Rightarrow> PBool b)"

text \<open>The entries of the lists \<open>node_merges\<close> and \<open>node_relationship_merges\<close>.\<close>

record node_merge =
  labels :: "string list"
  identifying_properties :: dict
  properties :: dict

record node_relationship_merge =
  n1_label :: "string list"
  n1_identifiers :: dict
  n2_label :: "string list"
  n2_additional_labels :: "string list"
  n2_identifiers :: dict
  n2_properties :: dict
  rel_type :: string
  rel_properties :: dict

text \<open>The requests sent to the store directly, outside the two lists.\<close>

datatype store_request =
    DeleteNodeRelationshipNode "string option" dict "string option" dict "string option" dict string
  | MergeRelationship string dict string dict string dict
  | DeleteNodes string dict
  | BatchMergeNode "node_merge list"
  | BatchMergeNodeRelationship "node_relationship_merge list"

text \<open>
  What the transformation functions mutate: the two shared lists, the log, and the
  requests already sent to the store.
\<close>

record env =
  node_merges :: "node_merge list"
  node_relationship_merges :: "node_relationship_merge list"
  logged :: "log_entry list"
  requests :: "store_request list"

definition log_warning :: "string \<Rightarrow> env \<Rightarrow> env" where
  "log_warning msg st = st\<lparr>logged := logged st @ [LogWarning msg]\<rparr>"


definition append_node_merge :: "string one_or_list \<Rightarrow> dict \<Rightarrow> dict \<Rightarrow> env \<Rightarrow> env" where
  "append_node_merge node_labels ident props st =
     st\<lparr>node_merges := node_merges st @
        [\<lparr>labels = to_list node_labels, identifying_properties = ident, properties = props\<rparr>]\<rparr>"

definition append_node_relationship_merge ::
  "string one_or_list \<Rightarrow> dict \<Rightarrow> string one_or_list \<Rightarrow> string one_or_list option \<Rightarrow> dict \<Rightarrow> dict
     \<Rightarrow> string \<Rightarrow> dict \<Rightarrow> env \<Rightarrow> env" where
  "append_node_relationship_merge node1_labels node1_identifiers node2_labels
       node2_additional_labels node2_identifiers node2_additional_properties rel_ty rel_props st =
     st\<lparr>node_relationship_merges := node_relationship_merges st @
        [\<lparr>n1_label = to_list node1_labels,
          n1_identifiers = node1_identifiers,
          n2_label = to_list node2_labels,
          n2_additional_labels =
            (case node2_additional_labels of None \<Rightarrow> [] | Some ls \<Rightarrow> to_list ls),
          n2_identifiers = node2_identifiers,
          n2_properties = node2_additional_properties,
          rel_type = rel_ty,
          rel_properties = rel_props\<rparr>]\<rparr>"

subsection \<open>append_properties\<close>

text \<open>\<^verbatim>\<open>key_name = key if n == 0 else f"{key}{n + 1}"\<close>\<close>

definition key_name :: "string \<Rightarrow> nat \<Rightarrow> string" where
  "key_name key n = (if n = 0 then key else key @ str_nat (n + 1))"

text \<open>
  \<^verbatim>\<open>for n, value in enumerate(values): if value is not None: properties[key_name] = value\<close>
\<close>

definition write_values :: "string \<Rightarrow> (nat \<times> pval) list \<Rightarrow> dict \<Rightarrow> dict" where
  "write_values key nvs props =
     fold (\<lambda>(n, value) d. if value \<noteq> PNone then dict_set (key_name key n) value d else d)
       nvs props"

definition append_properties :: "pval \<Rightarrow> string \<Rightarrow> dict \<Rightarrow> dict" where
  "append_properties values key props =
     (if values = PNone then props
      else write_values key (enumerate 0 (case values of PList vs \<Rightarrow> vs | v \<Rightarrow> [v])) props)"

subsection \<open>process_codings\<close>

record coding =
  coding_code :: "string option"
  coding_system :: "string option"
  coding_version :: "string option"
  coding_display :: "string option"
  coding_userSelected :: "bool option"

text \<open>
  \<^verbatim>\<open>for p in identifying_properties: if p not in properties: properties[p] = "None"\<close>
\<close>

fun fill_none :: "string list \<Rightarrow> dict \<Rightarrow> dict" where
  "fill_none [] props = props"
| "fill_none (p # ps) props =
     fill_none ps (if p \<in> fst ` set props then props else dict_set p (PStr ''None'') props)"

text \<open>
  \<^verbatim>\<open>dict((k, properties[k]) for k in identifying_properties)\<close>; \<open>properties[k]\<close>
  raises \<open>KeyError\<close> on a missing key.
\<close>

fun pick :: "string list \<Rightarrow> dict \<Rightarrow> dict \<Rightarrow> py_exc + dict" where
  "pick [] props acc = Inr acc"
| "pick (k # ks) props acc =
     (case map_of props k of
        None \<Rightarrow> Inl (KeyError k)
      | Some v \<Rightarrow> pick ks props (dict_set k v acc))"

definition coding_warning :: string where
  "coding_warning = ''Could not process Coding object: missing Coding.code and Coding.system.''"

definition coding_properties :: "coding \<Rightarrow> dict" where
  "coding_properties c =
     (let props = append_properties (of_str (coding_system c)) ''system'' [];
          props = append_properties (of_str (coding_version c)) ''version'' props;
          props = append_properties (of_str (coding_code c)) ''code'' props;
          props = fill_none [''code'', ''system'', ''version''] props;
          props = append_properties (of_str (coding_display c)) ''display'' props;
          props = append_properties (of_bool (coding_userSelected c)) ''user_selected'' props
      in props)"

text \<open>The loop over the codings; the \<open>break\<close> ends it at the first coding without code and system.\<close>

fun process_codings_loop ::
  "coding list \<Rightarrow> string one_or_list option \<Rightarrow> string \<Rightarrow> dict \<Rightarrow> string \<Rightarrow> dict \<Rightarrow> env
     \<Rightarrow> py_exc + env" where
  "process_codings_loop [] additional_labels rel_ty rel_props parent_label parent_properties st =
     Inr st"
| "process_codings_loop (c # cs) additional_labels rel_ty rel_props parent_label parent_properties st =
     (if coding_code c = None \<and> coding_system c = None
      then Inr (log_warning coding_warning st)
      else (case pick [''code'', ''system'', ''version''] (coding_properties c) [] of
              Inl exc \<Rightarrow> Inl exc
            | Inr ident \<Rightarrow>
                process_codings_loop cs additional_labels rel_ty rel_props parent_label
                  parent_properties
                  (append_node_relationship_merge (One parent_label) parent_properties
                     (One ''Coding'') additional_labels ident (coding_properties c)
                     rel_ty rel_props st)))"

definition process_codings ::
  "coding one_or_list option \<Rightarrow> string one_or_list option \<Rightarrow> string \<Rightarrow> dict \<Rightarrow> string \<Rightarrow> dict
     \<Rightarrow> env \<Rightarrow> py_exc + env" where
  "process_codings codings additional_labels rel_ty rel_props parent_label parent_properties st =
     (case codings of
        None \<Rightarrow> Inr st
      | Some cs \<Rightarrow>
          process_codings_loop (to_list cs) additional_labels rel_ty rel_props parent_label
            parent_properties st)"

subsection \<open>process_codableconcepts\<close>

record codeableconcept =
  cc_coding :: "coding one_or_list option"
  cc_text :: "string option"

text \<open>
  The loop over the concepts. The last but one argument is
  \<open>additional_parent_properties\<close>:
  \<^verbatim>\<open>additional_parent_properties[key_name] = cc.text\<close>
\<close>

fun process_codableconcepts_loop ::
  "(nat \<times> codeableconcept) list \<Rightarrow> string one_or_list option \<Rightarrow> string \<Rightarrow> string \<Rightarrow> dict
     \<Rightarrow> string \<Rightarrow> dict \<Rightarrow> dict \<Rightarrow> env \<Rightarrow> py_exc + dict \<times> env" where
  "process_codableconcepts_loop [] additional_labels key rel_ty rel_props parent_label
       parent_properties additional st = Inr (additional, st)"
| "process_codableconcepts_loop ((n, cc) # ccs) additional_labels key rel_ty rel_props parent_label
       parent_properties additional st =
     (case process_codings (cc_coding cc) additional_labels rel_ty rel_props parent_label
             parent_properties st of
        Inl exc \<Rightarrow> Inl exc
      | Inr st' \<Rightarrow>
          process_codableconcepts_loop ccs additional_labels key rel_ty rel_props parent_label
            parent_properties (dict_set (key_name key n) (of_str (cc_text cc)) additional) st')"

definition process_codableconcepts ::
  "codeableconcept one_or_list option \<Rightarrow> string one_or_list option \<Rightarrow> string \<Rightarrow> string \<Rightarrow> dict
     \<Rightarrow> string \<Rightarrow> dict \<Rightarrow> env \<Rightarrow> py_exc + env" where
  "process_codableconcepts ccs additional_labels key rel_ty rel_props parent_label
       parent_properties st =
     (case ccs of
        None \<Rightarrow> Inr st
      | Some c \<Rightarrow>
          (case process_codableconcepts_loop (enumerate 0 (to_list c)) additional_labels key
                  rel_ty rel_props parent_label parent_properties [] st of
             Inl exc \<Rightarrow> Inl exc
           | Inr (additional, st') \<Rightarrow>
               Inr (if length additional > 0
                    then append_node_merge (One parent_label) parent_properties
                           (dict_union parent_properties additional) st'
                    else st')))"


subsection \<open>Coded-value identity, as the specification words it\<close>

text \<open>
  A missing component of the triple (code, system, version) is recorded as the string
  \<open>None\<close>; the request for a coding goes from the owner to a \<open>Coding\<close> node
  identified by that triple.
\<close>

definition sentinel :: "string option \<Rightarrow> pval" where
  "sentinel x = (case x of None \<Rightarrow> PStr ''None'' | Some s \<Rightarrow> PStr s)"

definition coding_identity :: "coding \<Rightarrow> dict" where
  "coding_identity c =
     [(''code'', sentinel (coding_code c)),
      (''system'', sentinel (coding_system c)),
      (''version'', sentinel (coding_version c))]"

definition has_code_or_system :: "coding \<Rightarrow> bool" where
  "has_code_or_system c = (\<not> (coding_code c = None \<and> coding_system c = None))"

definition coding_request ::
  "string one_or_list option \<Rightarrow> string \<Rightarrow> dict \<Rightarrow> string \<Rightarrow> dict \<Rightarrow> coding
     \<Rightarrow> node_relationship_merge" where
  "coding_request additional_labels rel_ty rel_props parent_label parent_properties c =
     \<lparr>n1_label = [parent_label],
      n1_identifiers = parent_properties,
      n2_label = [''Coding''],
      n2_additional_labels = (case additional_labels of None \<Rightarrow> [] | Some ls \<Rightarrow> to_list ls),
      n2_identifiers = coding_identity c,
      n2_properties = coding_properties c,
      rel_type = rel_ty,
      rel_properties = rel_props\<rparr>"

definition empty_env :: env where
  "empty_env = \<lparr>node_merges = [], node_relationship_merges = [], logged = [], requests = []\<rparr>"

subsection \<open>process_references\<close>



text \<open>A step of a loop either goes on to the next element or returns from the function.\<close>

datatype 'a flow = Continue 'a | Return 'a

definition flow_env :: "'a flow \<Rightarrow> 'a" where
  "flow_env f = (case f of Continue st \<Rightarrow> st | Return st \<Rightarrow> st)"

definition quoted :: "string \<Rightarrow> string" where
  "quoted s = [CHR 0x22] @ s @ [CHR 0x22]"













subsection \<open>The three outcomes of a reference, as the specification words them\<close>






subsection \<open>process_backboneelements\<close>

text \<open>
  The value of an identifying property inside an f-string. The ids are strings; the
  \<open>repr\<close> of a list is outside this model.
\<close>

definition format_value :: "pval \<Rightarrow> py_exc + string" where
  "format_value v =
     (case v of
        PStr s \<Rightarrow> Inr s
      | PNone \<Rightarrow> Inr ''None''
      | PInt i \<Rightarrow> Inr (str_int i)
      | PBool b \<Rightarrow> Inr (if b then ''True'' else ''False'')
      | PList vs \<Rightarrow> Inl Unmodelled)"

definition parent_id_missing :: string where
  "parent_id_missing = ''Could not process backbone element: parent id missing.''"

text \<open>
  \<^verbatim>\<open>if "fhir_id" in parent_properties: new_id = f"{parent_properties['fhir_id']}_{label.lower()}{n+1}"\<close>
  and the same with \<open>temp_id\<close>, else the exception.
\<close>

definition new_id :: "dict \<Rightarrow> string \<Rightarrow> nat \<Rightarrow> py_exc + string" where
  "new_id parent_properties label n =
     (case map_of parent_properties ''fhir_id'' of
        Some v \<Rightarrow>
          (case format_value v of
             Inl exc \<Rightarrow> Inl exc
           | Inr p \<Rightarrow> Inr (p @ ''_'' @ lower label @ str_nat (n + 1)))
      | None \<Rightarrow>
          (case map_of parent_properties ''temp_id'' of
             Some v \<Rightarrow>
               (case format_value v of
                  Inl exc \<Rightarrow> Inl exc
                | Inr p \<Rightarrow> Inr (p @ ''_'' @ lower label @ str_nat (n + 1)))
           | None \<Rightarrow> Inl (Raised parent_id_missing)))"

text \<open>
  The function is a generator. \<open>body\<close> is the body of the caller's \<open>for\<close> loop, run
  between the \<open>yield\<close> and the resumption of the generator: it gets the yielded backbone
  element, \<open>bbe_identifying_properties\<close> and \<open>bbe_properties\<close>, and gives the
  properties as it leaves them and the environment as it leaves it, or raises.
\<close>

fun process_backboneelements_loop ::
  "('b \<Rightarrow> dict \<Rightarrow> dict \<Rightarrow> env \<Rightarrow> py_exc + dict \<times> env) \<Rightarrow> (nat \<times> 'b) list \<Rightarrow> string \<Rightarrow> string
     \<Rightarrow> string \<Rightarrow> dict \<Rightarrow> env \<Rightarrow> py_exc + env" where
  "process_backboneelements_loop body [] rel_ty label parent_label parent_properties st = Inr st"
| "process_backboneelements_loop body ((n, bbe) # rest) rel_ty label parent_label
       parent_properties st =
     (case new_id parent_properties label n of
        Inl exc \<Rightarrow> Inl exc
      | Inr nid \<Rightarrow>
          (let bbe_properties = dict_set ''temp_id'' (PStr nid) [];
               bbe_identifying_properties = [(''temp_id'', dict_get bbe_properties ''temp_id'')]
           in case body bbe bbe_identifying_properties bbe_properties st of
                Inl exc \<Rightarrow> Inl exc
              | Inr (bbe_properties', st') \<Rightarrow>
                  process_backboneelements_loop body rest rel_ty label parent_label
                    parent_properties
                    (append_node_relationship_merge (One parent_label) parent_properties
                       (One label) None bbe_identifying_properties bbe_properties' rel_ty []
                       st')))"

definition process_backboneelements ::
  "('b \<Rightarrow> dict \<Rightarrow> dict \<Rightarrow> env \<Rightarrow> py_exc + dict \<times> env) \<Rightarrow> 'b one_or_list option \<Rightarrow> string \<Rightarrow> string
     \<Rightarrow> string \<Rightarrow> dict \<Rightarrow> bool \<Rightarrow> env \<Rightarrow> py_exc + env" where
  "process_backboneelements body backboneelements rel_ty label parent_label parent_properties
       database_deleted st =
     (let st0 = (if \<not> database_deleted
                 then st\<lparr>requests := requests st @
                        [DeleteNodeRelationshipNode (Some parent_label) parent_properties
                           (Some rel_ty) [] (Some label) [] ''n2'']\<rparr>
                 else st)
      in case backboneelements of
           None \<Rightarrow> Inr st0
         | Some bs \<Rightarrow>
             process_backboneelements_loop body (enumerate 0 (to_list bs)) rel_ty label
               parent_label parent_properties st0)"

subsection \<open>Synthetic sub-entity identity, as the specification words it\<close>

text \<open>
  The identifying key of the parent is its \<open>fhir_id\<close>, and its \<open>temp_id\<close> when it has
  no \<open>fhir_id\<close>. The \<open>n\<close>-th sub-entity (counted from 1) has the key
  parent key, underscore, lowercased label, \<open>n\<close>.
\<close>

definition parent_key :: "dict \<Rightarrow> pval option" where
  "parent_key parent_properties =
     (case map_of parent_properties ''fhir_id'' of
        Some v \<Rightarrow> Some v
      | None \<Rightarrow> map_of parent_properties ''temp_id'')"

definition sub_entity_identity :: "string \<Rightarrow> string \<Rightarrow> nat \<Rightarrow> dict" where
  "sub_entity_identity p label n = [(''temp_id'', PStr (p @ ''_'' @ lower label @ str_nat n))]"

definition sub_entity_request ::
  "string \<Rightarrow> dict \<Rightarrow> string \<Rightarrow> string \<Rightarrow> dict \<Rightarrow> dict \<Rightarrow> node_relationship_merge" where
  "sub_entity_request parent_label parent_properties label rel_ty ident props =
     \<lparr>n1_label = [parent_label], n1_identifiers = parent_properties, n2_label = [label],
      n2_additional_labels = [], n2_identifiers = ident, n2_properties = props,
      rel_type = rel_ty, rel_properties = []\<rparr>"

text \<open>A loop body that only appends: it adds the entries of \<open>x\<close> to those of \<open>st\<close>.\<close>

definition env_append :: "env \<Rightarrow> env \<Rightarrow> env" where
  "env_append st x =
     \<lparr>node_merges = node_merges st @ node_merges x,
      node_relationship_merges = node_relationship_merges st @ node_relationship_merges x,
      logged = logged st @ logged x,
      requests = requests st @ requests x\<rparr>"

subsection \<open>The outcome of a reference, as the specification words it\<close>









section \<open>fhir2neo4j.py\<close>

subsection \<open>resolve_references\<close>

text \<open>
  What a \<open>MATCH\<close> query returns: records of two nodes and the relationship between
  them. The labels of a node are listed in the order in which \<open>iter\<close> gives them.
\<close>

record node =
  node_labels :: "string list"
  node_properties :: dict

record relationship =
  relationship_type :: string
  relationship_properties :: dict

record match_record =
  match_n1 :: node
  match_r :: relationship
  match_n2 :: node

text \<open>
  The store answers \<open>queries.match_node_relationship_node\<close>; its answer may depend on
  the write requests sent before. What the function does: the requests it sent, its log,
  and its counter \<open>resolved\<close>. The status line and the counters read from the result
  summaries are presentation and are left out.
\<close>

type_synonym store =
  "store_request list \<Rightarrow> string option \<Rightarrow> dict \<Rightarrow> string option \<Rightarrow> dict \<Rightarrow> string option \<Rightarrow> dict
     \<Rightarrow> match_record list"

record resolver =
  sent :: "store_request list"
  messages :: "log_entry list"
  resolved :: nat

definition to_be_processed :: string where
  "to_be_processed = ''fhir2neo4j_to_be_processed''"

definition not_logical_warning :: string where
  "not_logical_warning = ''Could not resolve reference: reference is not of type '' @ quoted ''logical'' @ ''.''"

definition not_found_warning :: "string \<Rightarrow> string" where
  "not_found_warning label2 = ''Could not find referenced '' @ quoted label2 @ '' node.''"

definition resolved_info :: "string \<Rightarrow> string \<Rightarrow> string" where
  "resolved_info label1 label2 =
     ''Reference from '' @ quoted label1 @ '' node to '' @ quoted label2
       @ '' node successfully resolved.''"

definition found_info :: "nat \<Rightarrow> string" where
  "found_info n = str_nat n @ '' unresolved references found. Trying to resolve references...''"

definition merge_missing_identifiers :: string where
  "merge_missing_identifiers = ''Can't MERGE relationship: Identifiers for node MATCH missing.''"

text \<open>\<open>next(iter(node.labels))\<close>\<close>

definition first_label :: "node \<Rightarrow> py_exc + string" where
  "first_label nd = (case node_labels nd of [] \<Rightarrow> Inl StopIteration | l # ls \<Rightarrow> Inr l)"

text \<open>The body of the loop over the matches of the first query.\<close>

definition resolve_match :: "store \<Rightarrow> match_record \<Rightarrow> resolver \<Rightarrow> py_exc + resolver" where
  "resolve_match run_match m st =
     (if dict_get (relationship_properties (match_r m)) ''reference_type'' = PStr ''logical''
      then
        (case first_label (match_n2 m) of
           Inl exc \<Rightarrow> Inl exc
         | Inr label2 \<Rightarrow>
             (case run_match (sent st) (Some label2) [] (Some ''IDENTIFIED_BY'') []
                     (Some ''Identifier'')
                     [(''value'', dict_get (node_properties (match_n2 m)) ''identifier_value''),
                      (''system'', dict_get (node_properties (match_n2 m)) ''identifier_system'')] of
                [] \<Rightarrow> Inr (st\<lparr>messages := messages st @ [LogWarning (not_found_warning label2)]\<rparr>)
              | found # others \<Rightarrow>
                  (case first_label (match_n1 m) of
                     Inl exc \<Rightarrow> Inl exc
                   | Inr label1 \<Rightarrow>
                       (case dict_del to_be_processed (relationship_properties (match_r m)) of
                          Inl exc \<Rightarrow> Inl exc
                        | Inr rel_prop1 \<Rightarrow>
                            (case dict_del ''reference_type'' rel_prop1 of
                               Inl exc \<Rightarrow> Inl exc
                             | Inr rel_prop \<Rightarrow>
                                 if node_properties (match_n1 m) = []
                                      \<or> node_properties (match_n1 found) = []
                                 then Inl (Raised merge_missing_identifiers)
                                 else Inr (st\<lparr>sent := sent st @
                                     [MergeRelationship label1 (node_properties (match_n1 m))
                                        label2 (node_properties (match_n1 found))
                                        (relationship_type (match_r m)) rel_prop,
                                      DeleteNodes label2
                                        [(to_be_processed, PBool True),
                                         (''identifier_value'',
                                            dict_get (node_properties (match_n2 m)) ''identifier_value''),
                                         (''identifier_system'',
                                            dict_get (node_properties (match_n2 m)) ''identifier_system'')]],
                                     resolved := resolved st + 1,
                                     messages := messages st @
                                       [LogInfo (resolved_info label1 label2)]\<rparr>))))))
      else Inr (st\<lparr>messages := messages st @ [LogWarning not_logical_warning]\<rparr>))"

fun resolve_loop :: "store \<Rightarrow> match_record list \<Rightarrow> resolver \<Rightarrow> py_exc + resolver" where
  "resolve_loop run_match [] st = Inr st"
| "resolve_loop run_match (m # ms) st =
     (case resolve_match run_match m st of
        Inl exc \<Rightarrow> Inl exc
      | Inr st' \<Rightarrow> resolve_loop run_match ms st')"

definition resolve_references :: "store \<Rightarrow> py_exc + resolver" where
  "resolve_references run_match =
     (let res1 = run_match [] None [] None [(to_be_processed, PBool True)] None []
      in if length res1 > 0
         then resolve_loop run_match res1
                \<lparr>sent = [], messages = [LogInfo (found_info (length res1))], resolved = 0\<rparr>
         else Inr \<lparr>sent = [], messages = [], resolved = 0\<rparr>)"

text \<open>The properties of a relationship without the two marker keys.\<close>

definition non_marker_properties :: "dict \<Rightarrow> dict" where
  "non_marker_properties props =
     filter (\<lambda>(k, v). k \<noteq> to_be_processed \<and> k \<noteq> ''reference_type'') props"

text \<open>
  The pass as the specification words it. A match is logical when its relationship says
  so; the second query looks for the real node by the stored pair; a logical match whose
  real node is found gives the merge request and the delete request, every other match
  gives no request. \<open>resolutions\<close> are the requests of a list of matches, each second
  query seeing the requests sent before it.
\<close>

definition is_logical :: "match_record \<Rightarrow> bool" where
  "is_logical m =
     (dict_get (relationship_properties (match_r m)) ''reference_type'' = PStr ''logical'')"

definition well_formed :: "match_record \<Rightarrow> bool" where
  "well_formed m =
     (node_labels (match_n1 m) \<noteq> [] \<and> node_labels (match_n2 m) \<noteq> []
      \<and> node_properties (match_n1 m) \<noteq> []
      \<and> to_be_processed \<in> fst ` set (relationship_properties (match_r m)))"

definition target_query :: "store \<Rightarrow> store_request list \<Rightarrow> match_record \<Rightarrow> match_record list" where
  "target_query run_match history m =
     (case node_labels (match_n2 m) of
        [] \<Rightarrow> []
      | l2 # ls2 \<Rightarrow>
          run_match history (Some l2) [] (Some ''IDENTIFIED_BY'') [] (Some ''Identifier'')
            [(''value'', dict_get (node_properties (match_n2 m)) ''identifier_value''),
             (''system'', dict_get (node_properties (match_n2 m)) ''identifier_system'')])"

definition resolution :: "store \<Rightarrow> store_request list \<Rightarrow> match_record \<Rightarrow> store_request list" where
  "resolution run_match history m =
     (if is_logical m
      then (case (node_labels (match_n1 m), node_labels (match_n2 m),
                  target_query run_match history m) of
              (l1 # ls1, l2 # ls2, found # others) \<Rightarrow>
                [MergeRelationship l1 (node_properties (match_n1 m))
                   l2 (node_properties (match_n1 found))
                   (relationship_type (match_r m))
                   (non_marker_properties (relationship_properties (match_r m))),
                 DeleteNodes l2
                   [(to_be_processed, PBool True),
                    (''identifier_value'',
                       dict_get (node_properties (match_n2 m)) ''identifier_value''),
                    (''identifier_system'',
                       dict_get (node_properties (match_n2 m)) ''identifier_system'')]]
            | _ \<Rightarrow> [])
      else [])"

definition resolution_message :: "store \<Rightarrow> store_request list \<Rightarrow> match_record \<Rightarrow> log_entry" where
  "resolution_message run_match history m =
     (if is_logical m
      then (case (node_labels (match_n1 m), node_labels (match_n2 m),
                  target_query run_match history m) of
              (l1 # ls1, l2 # ls2, found # others) \<Rightarrow> LogInfo (resolved_info l1 l2)
            | (ls, l2 # ls2, others) \<Rightarrow> LogWarning (not_found_warning l2)
            | _ \<Rightarrow> LogWarning (not_found_warning []))
      else LogWarning not_logical_warning)"

fun resolutions :: "store \<Rightarrow> store_request list \<Rightarrow> match_record list \<Rightarrow> store_request list" where
  "resolutions run_match history [] = []"
| "resolutions run_match history (m # ms) =
     resolution run_match history m
       @ resolutions run_match (history @ resolution run_match history m) ms"

fun resolution_messages :: "store \<Rightarrow> store_request list \<Rightarrow> match_record list \<Rightarrow> log_entry list" where
  "resolution_messages run_match history [] = []"
| "resolution_messages run_match history (m # ms) =
     resolution_message run_match history m
       # resolution_messages run_match (history @ resolution run_match history m) ms"

text \<open>
  An example store: one pending relationship, from a Condition to a placeholder Patient,
  and the real Patient identified by the stored value and system.
\<close>

definition pending :: match_record where
  "pending =
     \<lparr>match_n1 = \<lparr>node_labels = [''Condition''], node_properties = [(''fhir_id'', PStr ''c1'')]\<rparr>,
      match_r = \<lparr>relationship_type = ''HAS_SUBJECT'',
                 relationship_properties =
                   [(to_be_processed, PBool True), (''reference_type'', PStr ''logical''),
                    (''since'', PStr ''2020'')]\<rparr>,
      match_n2 = \<lparr>node_labels = [''Patient''],
                  node_properties =
                    [(to_be_processed, PBool True), (''identifier_value'', PStr ''123''),
                     (''identifier_system'', PStr ''urn:sys'')]\<rparr>\<rparr>"

definition real_target :: match_record where
  "real_target =
     \<lparr>match_n1 = \<lparr>node_labels = [''Patient''], node_properties = [(''fhir_id'', PStr ''p9'')]\<rparr>,
      match_r = \<lparr>relationship_type = ''IDENTIFIED_BY'', relationship_properties = []\<rparr>,
      match_n2 = \<lparr>node_labels = [''Identifier''],
                  node_properties = [(''value'', PStr ''123''), (''system'', PStr ''urn:sys'')]\<rparr>\<rparr>"

definition example_store :: store where
  "example_store history label1 props1 rel_ty rel_props label2 props2 =
     (if rel_props = [(to_be_processed, PBool True)] then [pending]
      else if label1 = Some ''Patient'' \<and> rel_ty = Some ''IDENTIFIED_BY''
                \<and> props2 = [(''value'', PStr ''123''), (''system'', PStr ''urn:sys'')]
           then [real_target]
      else [])"

subsection \<open>process_resource of the model files\<close>







subsection \<open>fetch_resources\<close>





text \<open>\<open>s.split(sep)\<close> and \<open>s.lstrip("/")\<close>.\<close>

function split_from :: "string \<Rightarrow> string \<Rightarrow> string \<Rightarrow> string list" where
  "split_from sep cur [] = [cur]"
| "split_from sep cur (c # s) =
     (if sep \<noteq> [] \<and> take (length sep) (c # s) = sep
      then cur # split_from sep [] (drop (length sep) (c # s))
      else split_from sep (cur @ [c]) s)"
  by pat_completeness auto
termination
  by (relation "measure (\<lambda>(sep, cur, s). length s)") auto

definition split :: "string \<Rightarrow> string \<Rightarrow> py_exc + string list" where
  "split s sep = (if sep = [] then Inl ValueError else Inr (split_from sep [] s))"


























section \<open>Properties of the escaping function\<close>

lemma replace_backtick: "replace ''`'' ''``'' s = doubled s"
  by (induction s) (auto simp: doubled_def)

lemma replace_absent: "old \<noteq> [] \<Longrightarrow> \<not> occurs old s \<Longrightarrow> replace old new s = s"
  by (induction s) auto

text \<open>
  Claim C9, as amended. The escaping function first turns every occurrence of the six
  characters backslash, u, 0, 0, 6, 0 into a backtick and then doubles every backtick. On a string in
  which that sequence does not occur it doubles each backtick and changes nothing else.
\<close>

theorem e_doubles_backticks:
  "e s = doubled (replace u0060 ''`'' s) \<and> (\<not> occurs u0060 s \<longrightarrow> e s = doubled s)"
  by (simp add: e_def replace_backtick replace_absent u0060_def)

theorem e_doubles_backticks_witness:
  "\<not> occurs u0060 ''a`b'' \<and> e ''a`b'' = ''a``b''"
  using e_doubles_backticks [of "''a`b''"] by (simp add: u0060_def doubled_def)

text \<open>
  The claim as stated fails: the input below holds no backtick, and the result is not the
  input.
\<close>

theorem e_unicode_escape_counterexample:
  "CHR ''`'' \<notin> set (CHR 0x5C # ''u0060'') \<and> e (CHR 0x5C # ''u0060'') = ''``''"
  by (simp add: e_def u0060_def)

section \<open>Properties of the retry loop\<close>

lemma retry_loop_all_transient:
  assumes "\<forall>k. ex k = TransientError"
  shows "retry_loop ex 0 0 [] =
    (Inr None,
     [Attempt, Log (LogInfo deadlock_info), Sleep 1, Attempt, Sleep 1, Attempt, Sleep 1,
      Attempt, Log (LogError deadlock_error)])"
proof -
  have a: "\<And>k. ex k = TransientError" using assms by simp
  show ?thesis
    by (simp add: a retry_loop.simps [of ex 0 0] retry_loop.simps [of ex "Suc 0" "Suc 0"]
        retry_loop.simps [of ex "Suc (Suc 0)" "Suc (Suc 0)"]
        retry_loop.simps [of ex "Suc (Suc (Suc 0))" "Suc (Suc (Suc 0))"])
qed

text \<open>
  Claim C3. When every attempt of a batch write raises a transient error, the write is
  attempted four times, with a sleep of one second after each of the first three, and
  then the error that recommends disabling parallel processing is logged; nothing
  follows it.
\<close>

theorem batch_merge_retry_bound:
  assumes "\<forall>k. execute_write items k = TransientError"
  shows "snd (batch_merge_node items execute_write) =
           [Attempt, Log (LogInfo deadlock_info), Sleep 1, Attempt, Sleep 1, Attempt, Sleep 1,
            Attempt, Log (LogError deadlock_error)]
       \<and> attempts (snd (batch_merge_node items execute_write)) = 4
       \<and> snd (batch_merge_node_relationship items execute_write) =
           [Attempt, Log (LogInfo deadlock_info), Sleep 1, Attempt, Sleep 1, Attempt, Sleep 1,
            Attempt, Log (LogError deadlock_error)]
       \<and> attempts (snd (batch_merge_node_relationship items execute_write)) = 4"
  using retry_loop_all_transient [of "execute_write items"] assms
  by (simp add: batch_merge_node_def batch_merge_node_relationship_def return_result_def
      attempts_def)

theorem batch_merge_retry_bound_witness:
  "(\<forall>k. (\<lambda>items k. TransientError :: unit exec_outcome) [True] k = TransientError)
   \<and> attempts (snd (batch_merge_node [True] (\<lambda>items k. TransientError :: unit exec_outcome))) = 4
   \<and> attempts (snd (batch_merge_node_relationship [True]
        (\<lambda>items k. TransientError :: unit exec_outcome))) = 4"
  using batch_merge_retry_bound [of "\<lambda>items k. TransientError :: unit exec_outcome" "[True]"]
  by (simp add: attempts_def)

text \<open>
  Claim C10. When every attempt raises a transient error, the loop makes its fourth
  attempt, logs the error and is left there, without \<open>result\<close> ever being bound
  (the loop ends with \<open>None\<close> for it); the final \<open>return result\<close> then raises
  \<open>UnboundLocalError\<close>: the call ends with an exception, not with a summary.
\<close>

theorem batch_merge_unbound_result:
  assumes "\<forall>k. execute_write items k = TransientError"
  shows "batch_merge_node items execute_write =
           (Inl UnboundLocalError,
            [Attempt, Log (LogInfo deadlock_info), Sleep 1, Attempt, Sleep 1, Attempt, Sleep 1,
             Attempt, Log (LogError deadlock_error)])
       \<and> batch_merge_node_relationship items execute_write =
           (Inl UnboundLocalError,
            [Attempt, Log (LogInfo deadlock_info), Sleep 1, Attempt, Sleep 1, Attempt, Sleep 1,
             Attempt, Log (LogError deadlock_error)])
       \<and> attempts (snd (batch_merge_node items execute_write)) = 4
       \<and> attempts (snd (batch_merge_node_relationship items execute_write)) = 4
       \<and> retry_loop (execute_write items) 0 0 [] =
           (Inr None,
            [Attempt, Log (LogInfo deadlock_info), Sleep 1, Attempt, Sleep 1, Attempt, Sleep 1,
             Attempt, Log (LogError deadlock_error)])"
  using retry_loop_all_transient [of "execute_write items"] assms
  by (simp add: batch_merge_node_def batch_merge_node_relationship_def return_result_def
      attempts_def)

theorem batch_merge_unbound_result_witness:
  "(\<forall>k. (\<lambda>items k. TransientError :: unit exec_outcome) [True] k = TransientError)
   \<and> batch_merge_node [True] (\<lambda>items k. TransientError :: unit exec_outcome)
       = (Inl UnboundLocalError,
          [Attempt, Log (LogInfo deadlock_info), Sleep 1, Attempt, Sleep 1, Attempt, Sleep 1,
           Attempt, Log (LogError deadlock_error)])
   \<and> batch_merge_node_relationship [True] (\<lambda>items k. TransientError :: unit exec_outcome)
       = (Inl UnboundLocalError,
          [Attempt, Log (LogInfo deadlock_info), Sleep 1, Attempt, Sleep 1, Attempt, Sleep 1,
           Attempt, Log (LogError deadlock_error)])"
  using batch_merge_unbound_result [of "\<lambda>items k. TransientError :: unit exec_outcome" "[True]"]
  by simp

section \<open>Properties of the flattening primitive\<close>

lemma str_nat_nonempty: "str_nat n \<noteq> []"
  by (subst str_nat.simps) simp

lemma digit_char_inj: "a < 10 \<Longrightarrow> b < 10 \<Longrightarrow> digit_char a = digit_char b \<Longrightarrow> a = b"
proof -
  have "distinct ''0123456789''" by simp
  then show "a < 10 \<Longrightarrow> b < 10 \<Longrightarrow> digit_char a = digit_char b \<Longrightarrow> a = b"
    unfolding digit_char_def by (subst (asm) nth_eq_iff_index_eq) simp_all
qed

lemma str_nat_inj: "str_nat n = str_nat m \<Longrightarrow> n = m"
proof (induction n arbitrary: m rule: str_nat.induct)
  case (1 n)
  show ?case
  proof (cases "n < 10")
    case True
    show ?thesis
    proof (cases "m < 10")
      case True
      with \<open>n < 10\<close> "1.prems" show ?thesis
        by (simp add: str_nat.simps [of n] str_nat.simps [of m] digit_char_inj)
    next
      case False
      with \<open>n < 10\<close> "1.prems" str_nat_nonempty [of "m div 10"] show ?thesis
        by (simp add: str_nat.simps [of n] str_nat.simps [of m])
    qed
  next
    case False
    show ?thesis
    proof (cases "m < 10")
      case True
      with \<open>\<not> n < 10\<close> "1.prems" str_nat_nonempty [of "n div 10"] show ?thesis
        by (simp add: str_nat.simps [of n] str_nat.simps [of m])
    next
      case mf: False
      from False mf "1.prems"
      have eq: "str_nat (n div 10) = str_nat (m div 10)"
        and d: "digit_char (n mod 10) = digit_char (m mod 10)"
        by (simp_all add: str_nat.simps [of n] str_nat.simps [of m])
      from "1.IH" [OF False eq] have "n div 10 = m div 10" .
      moreover from d have "n mod 10 = m mod 10"
        by (intro digit_char_inj) simp_all
      ultimately show ?thesis
        by (metis div_mult_mod_eq)
    qed
  qed
qed

lemma key_name_inj: "key_name k i = key_name k j \<Longrightarrow> i = j"
  using str_nat_nonempty str_nat_inj
  by (auto simp: key_name_def split: if_splits)

lemma map_of_dict_set: "map_of (dict_set k v d) = (map_of d)(k \<mapsto> v)"
  by (induction d) (auto simp: fun_eq_iff)

lemma keys_dict_set: "fst ` set (dict_set k v d) = insert k (fst ` set d)"
  by (simp add: dom_map_of_conv_image_fst [symmetric] map_of_dict_set)

lemma dict_set_fresh: "k \<notin> fst ` set d \<Longrightarrow> dict_set k v d = d @ [(k, v)]"
  by (induction d) auto

lemma write_values_entries:
  "distinct (map fst nvs) \<Longrightarrow> key_name k ` fst ` set nvs \<inter> fst ` set d = {} \<Longrightarrow>
   write_values k nvs d
     = d @ map (\<lambda>(i, v). (key_name k i, v)) (filter (\<lambda>(i, v). v \<noteq> PNone) nvs)"
proof (induction nvs arbitrary: d)
  case Nil
  then show ?case by (simp add: write_values_def)
next
  case (Cons a nvs)
  obtain i v where a: "a = (i, v)" by (cases a)
  have dn: "distinct (map fst nvs)" and ni: "i \<notin> fst ` set nvs"
    using Cons.prems(1) a by auto
  have sub: "key_name k ` fst ` set nvs \<inter> fst ` set d = {}"
    using Cons.prems(2) by auto
  have fresh: "key_name k i \<notin> fst ` set d"
    using Cons.prems(2) a by auto
  show ?case
  proof (cases "v = PNone")
    case True
    with Cons.IH [OF dn sub] a show ?thesis by (simp add: write_values_def)
  next
    case False
    have "key_name k i \<notin> key_name k ` fst ` set nvs"
      using ni key_name_inj by blast
    with sub have "key_name k ` fst ` set nvs \<inter> fst ` set (d @ [(key_name k i, v)]) = {}"
      by auto
    from Cons.IH [OF dn this] False a fresh show ?thesis
      by (simp add: write_values_def dict_set_fresh)
  qed
qed

lemma map_of_write_values_skip:
  "x \<notin> key_name k ` {i. \<exists>v. (i, v) \<in> set nvs \<and> v \<noteq> PNone} \<Longrightarrow>
   map_of (write_values k nvs d) x = map_of d x"
proof (induction nvs arbitrary: d)
  case Nil
  then show ?case by (simp add: write_values_def)
next
  case (Cons a nvs)
  obtain i v where a: "a = (i, v)" by (cases a)
  have x: "x \<notin> key_name k ` {i. \<exists>v. (i, v) \<in> set nvs \<and> v \<noteq> PNone}"
    using Cons.prems by auto
  have "v \<noteq> PNone \<Longrightarrow> x \<noteq> key_name k i"
    using Cons.prems a by auto
  with Cons.IH [OF x] a show ?case
    by (auto simp: write_values_def map_of_dict_set)
qed

lemma map_of_write_values_entry:
  "distinct (map fst nvs) \<Longrightarrow> (i, v) \<in> set nvs \<Longrightarrow> v \<noteq> PNone \<Longrightarrow>
   map_of (write_values k nvs d) (key_name k i) = Some v"
proof (induction nvs arbitrary: d)
  case Nil
  then show ?case by simp
next
  case (Cons a nvs)
  obtain j w where a: "a = (j, w)" by (cases a)
  show ?case
  proof (cases "(i, v) = (j, w)")
    case True
    have "j \<notin> fst ` set nvs" using Cons.prems(1) a by auto
    then have "key_name k j \<notin> key_name k ` {i. \<exists>v. (i, v) \<in> set nvs \<and> v \<noteq> PNone}"
      using key_name_inj by (force simp: image_iff)
    from map_of_write_values_skip [OF this] True a Cons.prems(3) show ?thesis
      by (simp add: write_values_def map_of_dict_set)
  next
    case False
    with Cons.prems a have "(i, v) \<in> set nvs" "distinct (map fst nvs)" by auto
    from Cons.IH [OF this(2) this(1) Cons.prems(3)] a show ?thesis
      by (simp add: write_values_def)
  qed
qed


lemma enumerate_written_indices:
  "{i. \<exists>v. (i, v) \<in> set (enumerate 0 vs) \<and> v \<noteq> PNone} = {i. i < length vs \<and> vs ! i \<noteq> PNone}"
  by (auto simp: in_set_enumerate_eq)

lemma append_properties_list:
  "append_properties (PList vs) k d = write_values k (enumerate 0 vs) d"
  by (simp add: append_properties_def)

lemma append_properties_scalar:
  "v \<noteq> PNone \<Longrightarrow> \<forall>vs. v \<noteq> PList vs \<Longrightarrow> append_properties v k d = dict_set k v d"
  by (cases v) (simp_all add: append_properties_def write_values_def key_name_def)

text \<open>
  Claim C4, as amended. With key \<open>k\<close>: an absent value and an empty list write nothing;
  a single value that is neither \<open>None\<close> nor a list writes exactly the key \<open>k\<close>; a
  list writes, for each element that is not \<open>None\<close>, the key numbered by the position
  of the element in the list (\<open>k\<close> for the first position, then \<open>k2, k3, ...\<close>), in
  input order, and touches no other key; an element that is \<open>None\<close> is skipped and
  the numbering goes on. So a list of \<open>N\<close> values none of which is \<open>None\<close> writes
  exactly the \<open>N\<close> distinct keys \<open>k, k2, ..., kN\<close>.
\<close>

theorem append_properties_flattening:
  "append_properties PNone k d = d
   \<and> append_properties (PList []) k d = d
   \<and> (v \<noteq> PNone \<and> (\<forall>vs. v \<noteq> PList vs) \<longrightarrow> append_properties v k d = dict_set k v d)
   \<and> append_properties (PList vs) k []
       = map (\<lambda>(i, v). (key_name k i, v)) (filter (\<lambda>(i, v). v \<noteq> PNone) (enumerate 0 vs))
   \<and> distinct (map (key_name k) [0..<length vs])
   \<and> fst ` set (append_properties (PList vs) k d)
       = fst ` set d \<union> key_name k ` {i. i < length vs \<and> vs ! i \<noteq> PNone}
   \<and> (\<forall>i<length vs. vs ! i \<noteq> PNone \<longrightarrow>
         map_of (append_properties (PList vs) k d) (key_name k i) = Some (vs ! i))
   \<and> (\<forall>x. x \<notin> key_name k ` {i. i < length vs \<and> vs ! i \<noteq> PNone} \<longrightarrow>
         map_of (append_properties (PList vs) k d) x = map_of d x)
   \<and> (PNone \<notin> set vs \<longrightarrow>
         append_properties (PList vs) k [] = zip (map (key_name k) [0..<length vs]) vs)
   \<and> key_name k 0 = k \<and> key_name k (Suc n) = k @ str_nat (n + 2)"
proof -
  have a: "append_properties PNone k d = d" "append_properties (PList []) k d = d"
    by (simp_all add: append_properties_def write_values_def)
  have b: "v \<noteq> PNone \<and> (\<forall>vs. v \<noteq> PList vs) \<longrightarrow> append_properties v k d = dict_set k v d"
    by (simp add: append_properties_scalar)
  have c: "key_name k 0 = k" "key_name k (Suc n) = k @ str_nat (n + 2)"
    by (simp_all add: key_name_def)
  have dst: "distinct (map (key_name k) [0..<length vs])"
    by (simp add: distinct_map inj_on_def) (metis key_name_inj)
  have de: "distinct (map fst (enumerate 0 vs))"
    by (simp add: map_fst_enumerate)
  have d1: "append_properties (PList vs) k []
       = map (\<lambda>(i, v). (key_name k i, v)) (filter (\<lambda>(i, v). v \<noteq> PNone) (enumerate 0 vs))"
    using write_values_entries [OF de, of k "[]"] by (simp add: append_properties_list)
  have d4: "\<forall>i<length vs. vs ! i \<noteq> PNone \<longrightarrow>
         map_of (append_properties (PList vs) k d) (key_name k i) = Some (vs ! i)"
  proof (intro allI impI)
    fix i assume i: "i < length vs" "vs ! i \<noteq> PNone"
    then have "(i, vs ! i) \<in> set (enumerate 0 vs)" by (simp add: in_set_enumerate_eq)
    from map_of_write_values_entry [OF de this i(2)]
    show "map_of (append_properties (PList vs) k d) (key_name k i) = Some (vs ! i)"
      by (simp add: append_properties_list)
  qed
  have d5: "\<forall>x. x \<notin> key_name k ` {i. i < length vs \<and> vs ! i \<noteq> PNone} \<longrightarrow>
         map_of (append_properties (PList vs) k d) x = map_of d x"
    using map_of_write_values_skip [of _ k "enumerate 0 vs" d]
    by (simp add: append_properties_list enumerate_written_indices)
  have d3: "fst ` set (append_properties (PList vs) k d)
       = fst ` set d \<union> key_name k ` {i. i < length vs \<and> vs ! i \<noteq> PNone}"
  proof (rule set_eqI)
    fix x
    show "x \<in> fst ` set (append_properties (PList vs) k d)
        \<longleftrightarrow> x \<in> fst ` set d \<union> key_name k ` {i. i < length vs \<and> vs ! i \<noteq> PNone}"
    proof (cases "x \<in> key_name k ` {i. i < length vs \<and> vs ! i \<noteq> PNone}")
      case True
      then obtain i where "i < length vs" "vs ! i \<noteq> PNone" "x = key_name k i" by auto
      with d4 have "map_of (append_properties (PList vs) k d) x \<noteq> None" by simp
      then have "x \<in> fst ` set (append_properties (PList vs) k d)"
        by (simp add: map_of_eq_None_iff)
      with True show ?thesis by simp
    next
      case False
      with d5 have "map_of (append_properties (PList vs) k d) x = map_of d x" by simp
      then have "x \<in> fst ` set (append_properties (PList vs) k d) \<longleftrightarrow> x \<in> fst ` set d"
        by (metis map_of_eq_None_iff)
      with False show ?thesis by simp
    qed
  qed
  have d6: "PNone \<notin> set vs \<longrightarrow>
         append_properties (PList vs) k [] = zip (map (key_name k) [0..<length vs]) vs"
  proof
    assume nn: "PNone \<notin> set vs"
    then have "\<And>i. i < length vs \<Longrightarrow> vs ! i \<noteq> PNone"
      by (metis nth_mem)
    then have "filter (\<lambda>(i, v). v \<noteq> PNone) (enumerate 0 vs) = enumerate 0 vs"
      by (auto simp: filter_id_conv in_set_enumerate_eq)
    with d1 show "append_properties (PList vs) k [] = zip (map (key_name k) [0..<length vs]) vs"
      by (simp add: enumerate_eq_zip zip_map1)
  qed
  from a b c dst d1 d3 d4 d5 d6 show ?thesis by blast
qed

theorem append_properties_flattening_witness:
  "PStr ''x'' \<noteq> PNone \<and> (\<forall>vs. PStr ''x'' \<noteq> PList vs)
   \<and> PNone \<notin> set [PStr ''a'', PStr ''b'', PInt 3]
   \<and> append_properties (PStr ''x'') ''k'' [] = [(''k'', PStr ''x'')]
   \<and> append_properties (PList [PStr ''a'', PStr ''b'', PInt 3]) ''k'' []
       = [(''k'', PStr ''a''), (''k2'', PStr ''b''), (''k3'', PInt 3)]"
  using append_properties_flattening [of "''k''" "[]" "PStr ''x''" "[PStr ''a'', PStr ''b'', PInt 3]" 0]
  by (simp add: key_name_def str_nat.simps digit_char_def upt_rec enumerate_eq_zip)

text \<open>
  The claim as stated fails: a list of three elements whose second one is \<open>None\<close>
  writes \<open>k\<close> and \<open>k3\<close>, not \<open>k, k2, k3\<close> and not \<open>k, k2\<close>.
\<close>

theorem append_properties_gap_counterexample:
  "append_properties (PList [PStr ''a'', PNone, PStr ''c'']) ''k'' []
     = [(''k'', PStr ''a''), (''k3'', PStr ''c'')]"
  by (simp add: append_properties_def write_values_def key_name_def str_nat.simps digit_char_def)

section \<open>Properties of the coded-value primitive\<close>

lemma append_properties_of_str [simp]:
  "append_properties (of_str None) k d = d"
  "append_properties (of_str (Some s)) k d = dict_set k (PStr s) d"
  by (simp_all add: append_properties_def of_str_def write_values_def key_name_def)

lemma append_properties_of_bool [simp]:
  "append_properties (of_bool None) k d = d"
  "append_properties (of_bool (Some b)) k d = dict_set k (PBool b) d"
  by (simp_all add: append_properties_def of_bool_def write_values_def key_name_def)

lemma pick_coding_properties:
  "pick [''code'', ''system'', ''version''] (coding_properties c) [] = Inr (coding_identity c)"
  by (cases "coding_code c"; cases "coding_system c"; cases "coding_version c";
      cases "coding_display c"; cases "coding_userSelected c")
     (simp_all add: coding_properties_def coding_identity_def sentinel_def)

lemma process_codings_loop_eq:
  "process_codings_loop cs al rt rp pl pp st =
     Inr (st\<lparr>node_relationship_merges := node_relationship_merges st @
               map (coding_request al rt rp pl pp) (takeWhile has_code_or_system cs),
             logged := logged st @
               (if list_all has_code_or_system cs then [] else [LogWarning coding_warning])\<rparr>)"
proof (induction cs arbitrary: st)
  case Nil
  then show ?case by simp
next
  case (Cons c cs)
  show ?case
  proof (cases "has_code_or_system c")
    case True
    then show ?thesis
      by (auto simp add: Cons.IH pick_coding_properties has_code_or_system_def
          append_node_relationship_merge_def coding_request_def to_list_def simp del: pick.simps)
  next
    case False
    then show ?thesis
      by (simp add: has_code_or_system_def log_warning_def)
  qed
qed

lemma coding_identity_in_properties: "set (coding_identity c) \<subseteq> set (coding_properties c)"
  by (cases "coding_code c"; cases "coding_system c"; cases "coding_version c";
      cases "coding_display c"; cases "coding_userSelected c")
     (simp_all add: coding_properties_def coding_identity_def sentinel_def)

text \<open>
  Claim C7. Every coding that has a code or a system gives one request whose node is
  identified by exactly the three keys code, system and version, an absent component
  being the string \<open>None\<close>; the same three entries are among the node's properties.
  A coding with neither code nor system gives no request and a warning (and ends the
  loop over the codings).
\<close>

theorem process_codings_identity:
  "process_codings codings al rt rp pl pp st =
     Inr (st\<lparr>node_relationship_merges := node_relationship_merges st @
               map (coding_request al rt rp pl pp)
                 (takeWhile has_code_or_system (case codings of None \<Rightarrow> [] | Some cs \<Rightarrow> to_list cs)),
             logged := logged st @
               (if list_all has_code_or_system (case codings of None \<Rightarrow> [] | Some cs \<Rightarrow> to_list cs)
                then [] else [LogWarning coding_warning])\<rparr>)
   \<and> n2_label (coding_request al rt rp pl pp c) = [''Coding'']
   \<and> n2_identifiers (coding_request al rt rp pl pp c) =
        [(''code'', case coding_code c of None \<Rightarrow> PStr ''None'' | Some s \<Rightarrow> PStr s),
         (''system'', case coding_system c of None \<Rightarrow> PStr ''None'' | Some s \<Rightarrow> PStr s),
         (''version'', case coding_version c of None \<Rightarrow> PStr ''None'' | Some s \<Rightarrow> PStr s)]
   \<and> set (n2_identifiers (coding_request al rt rp pl pp c))
        \<subseteq> set (n2_properties (coding_request al rt rp pl pp c))
   \<and> (coding_code c = None \<and> coding_system c = None \<longrightarrow>
        process_codings (Some (One c)) al rt rp pl pp st = Inr (log_warning coding_warning st))"
proof -
  have 1: "process_codings codings al rt rp pl pp st =
     Inr (st\<lparr>node_relationship_merges := node_relationship_merges st @
               map (coding_request al rt rp pl pp)
                 (takeWhile has_code_or_system (case codings of None \<Rightarrow> [] | Some cs \<Rightarrow> to_list cs)),
             logged := logged st @
               (if list_all has_code_or_system (case codings of None \<Rightarrow> [] | Some cs \<Rightarrow> to_list cs)
                then [] else [LogWarning coding_warning])\<rparr>)"
    by (cases codings) (simp_all add: process_codings_def process_codings_loop_eq)
  have 2: "coding_code c = None \<and> coding_system c = None \<longrightarrow>
        process_codings (Some (One c)) al rt rp pl pp st = Inr (log_warning coding_warning st)"
    by (simp add: process_codings_def to_list_def)
  show ?thesis
    using 1 2 coding_identity_in_properties [of c]
    by (simp add: coding_request_def coding_identity_def sentinel_def)
qed

theorem process_codings_identity_witness:
  "coding_code \<lparr>coding_code = None, coding_system = None, coding_version = Some ''1'',
       coding_display = None, coding_userSelected = None\<rparr> = None
   \<and> coding_system \<lparr>coding_code = None, coding_system = None, coding_version = Some ''1'',
       coding_display = None, coding_userSelected = None\<rparr> = None
   \<and> process_codings
        (Some (One \<lparr>coding_code = None, coding_system = None, coding_version = Some ''1'',
           coding_display = None, coding_userSelected = None\<rparr>))
        None ''HAS_CODE'' [] ''Patient'' [(''fhir_id'', PStr ''p1'')] empty_env
       = Inr (log_warning coding_warning empty_env)
   \<and> process_codings
        (Some (Lst [\<lparr>coding_code = Some ''M'', coding_system = None, coding_version = None,
           coding_display = Some ''married'', coding_userSelected = None\<rparr>]))
        None ''HAS_CODE'' [] ''Patient'' [(''fhir_id'', PStr ''p1'')] empty_env
       = Inr (empty_env\<lparr>node_relationship_merges :=
           [\<lparr>n1_label = [''Patient''], n1_identifiers = [(''fhir_id'', PStr ''p1'')],
             n2_label = [''Coding''], n2_additional_labels = [],
             n2_identifiers =
               [(''code'', PStr ''M''), (''system'', PStr ''None''), (''version'', PStr ''None'')],
             n2_properties =
               [(''code'', PStr ''M''), (''system'', PStr ''None''), (''version'', PStr ''None''),
                (''display'', PStr ''married'')],
             rel_type = ''HAS_CODE'', rel_properties = []\<rparr>]\<rparr>)"
  using process_codings_identity [of
      "Some (One \<lparr>coding_code = None, coding_system = None, coding_version = Some ''1'',
           coding_display = None, coding_userSelected = None\<rparr>)"
      None "''HAS_CODE''" "[]" "''Patient''" "[(''fhir_id'', PStr ''p1'')]" empty_env
      "\<lparr>coding_code = None, coding_system = None, coding_version = Some ''1'',
           coding_display = None, coding_userSelected = None\<rparr>"]
    process_codings_identity [of
      "Some (Lst [\<lparr>coding_code = Some ''M'', coding_system = None, coding_version = None,
           coding_display = Some ''married'', coding_userSelected = None\<rparr>])"
      None "''HAS_CODE''" "[]" "''Patient''" "[(''fhir_id'', PStr ''p1'')]" empty_env]
  by (simp add: to_list_def has_code_or_system_def coding_request_def coding_identity_def
      sentinel_def coding_properties_def empty_env_def)

section \<open>Properties of the coded-concept primitive\<close>

text \<open>
  Claim C8 at a concept without free text: \<open>additional_parent_properties[key_name] = cc.text\<close>
  stores the key with the value \<open>None\<close>, and the owner's node merge request carries it.
  The claim says that nothing is written for such a concept.
\<close>

theorem process_codableconcepts_null_text:
  "process_codableconcepts (Some (One \<lparr>cc_coding = None, cc_text = None\<rparr>)) None
     ''marital_status'' ''HAS_MARITIAL_STATUS'' [] ''Patient'' [(''fhir_id'', PStr ''p1'')] empty_env
   = Inr (empty_env\<lparr>node_merges :=
       [\<lparr>labels = [''Patient''],
         identifying_properties = [(''fhir_id'', PStr ''p1'')],
         properties = [(''fhir_id'', PStr ''p1''), (''marital_status'', PNone)]\<rparr>]\<rparr>)"
  by (simp add: process_codableconcepts_def process_codings_def to_list_def key_name_def
      of_str_def append_node_merge_def dict_union_def empty_env_def)

section \<open>Properties of the reference primitive\<close>











section \<open>Properties of the sub-entity primitive\<close>

lemma new_id_parent_key:
  "parent_key pp = Some (PStr p) \<Longrightarrow> new_id pp label n = Inr (p @ ''_'' @ lower label @ str_nat (n + 1))"
  by (auto simp: parent_key_def new_id_def format_value_def split: option.splits)

lemma process_backboneelements_loop_appends:
  assumes pk: "parent_key pp = Some (PStr p)"
    and body: "\<forall>b i ps s. body b i ps s = Inr (fill b i ps, env_append s (extra b i ps))"
  shows "\<exists>st'. process_backboneelements_loop body (enumerate n bs) rt label pl pp st = Inr st'
     \<and> node_relationship_merges st' = node_relationship_merges st @
          concat (map (\<lambda>(m, b).
              node_relationship_merges (extra b (sub_entity_identity p label (m + 1))
                 (sub_entity_identity p label (m + 1)))
              @ [sub_entity_request pl pp label rt (sub_entity_identity p label (m + 1))
                   (fill b (sub_entity_identity p label (m + 1))
                      (sub_entity_identity p label (m + 1)))])
            (enumerate n bs))
     \<and> requests st' = requests st @
          concat (map (\<lambda>(m, b). requests (extra b (sub_entity_identity p label (m + 1))
                 (sub_entity_identity p label (m + 1)))) (enumerate n bs))"
proof (induction bs arbitrary: n st)
  case Nil
  then show ?case by simp
next
  case (Cons b bs)
  let ?i = "sub_entity_identity p label (n + 1)"
  let ?st1 = "append_node_relationship_merge (One pl) pp (One label) None ?i (fill b ?i ?i) rt []
                (env_append st (extra b ?i ?i))"
  have step: "process_backboneelements_loop body (enumerate n (b # bs)) rt label pl pp st
      = process_backboneelements_loop body (enumerate (Suc n) bs) rt label pl pp ?st1"
    using body
    by (simp add: new_id_parent_key [OF pk] sub_entity_identity_def dict_get_def Let_def)
  have nrm1: "node_relationship_merges ?st1 = node_relationship_merges st
      @ node_relationship_merges (extra b ?i ?i)
      @ [sub_entity_request pl pp label rt ?i (fill b ?i ?i)]"
    by (simp add: append_node_relationship_merge_def env_append_def sub_entity_request_def
        to_list_def)
  have req1: "requests ?st1 = requests st @ requests (extra b ?i ?i)"
    by (simp add: append_node_relationship_merge_def env_append_def)
  from Cons.IH [of "Suc n" ?st1] obtain st' where
    r: "process_backboneelements_loop body (enumerate (Suc n) bs) rt label pl pp ?st1 = Inr st'"
    and n': "node_relationship_merges st' = node_relationship_merges ?st1 @
          concat (map (\<lambda>(m, b).
              node_relationship_merges (extra b (sub_entity_identity p label (m + 1))
                 (sub_entity_identity p label (m + 1)))
              @ [sub_entity_request pl pp label rt (sub_entity_identity p label (m + 1))
                   (fill b (sub_entity_identity p label (m + 1))
                      (sub_entity_identity p label (m + 1)))])
            (enumerate (Suc n) bs))"
    and q': "requests st' = requests ?st1 @
          concat (map (\<lambda>(m, b). requests (extra b (sub_entity_identity p label (m + 1))
                 (sub_entity_identity p label (m + 1)))) (enumerate (Suc n) bs))"
    by blast
  show ?case
    using step r n' q' nrm1 req1 by simp
qed


text \<open>
  Claim C5. Unless the database is freshly deleted, the request that deletes the nodes
  of the given label attached to the parent by the given relationship type is sent
  before anything else is done. Then, for a parent whose identifying key is \<open>p\<close> and
  loop bodies that fill the properties and append requests, the \<open>n\<close>-th sub-structure
  (from 1) gets the sole identifying property \<open>temp_id\<close>, equal to \<open>p\<close>, an underscore,
  the lowercased label and \<open>n\<close>, and exactly one request from the parent to it is
  appended after what its loop body appended; the function sends no other store request.
\<close>

theorem process_backboneelements_identity:
  assumes "parent_key pp = Some (PStr p)"
    and "\<forall>b i ps s. body b i ps s = Inr (fill b i ps, env_append s (extra b i ps))"
  shows "process_backboneelements body bbes rt label pl pp False st
         = process_backboneelements body bbes rt label pl pp True
             (st\<lparr>requests := requests st @
                [DeleteNodeRelationshipNode (Some pl) pp (Some rt) [] (Some label) [] ''n2'']\<rparr>)
     \<and> (\<exists>st'. process_backboneelements body bbes rt label pl pp True st = Inr st'
         \<and> node_relationship_merges st' = node_relationship_merges st @
              concat (map (\<lambda>(m, b).
                  node_relationship_merges (extra b (sub_entity_identity p label (m + 1))
                     (sub_entity_identity p label (m + 1)))
                  @ [sub_entity_request pl pp label rt (sub_entity_identity p label (m + 1))
                       (fill b (sub_entity_identity p label (m + 1))
                          (sub_entity_identity p label (m + 1)))])
                (enumerate 0 (case bbes of None \<Rightarrow> [] | Some bs \<Rightarrow> to_list bs)))
         \<and> requests st' = requests st @
              concat (map (\<lambda>(m, b). requests (extra b (sub_entity_identity p label (m + 1))
                     (sub_entity_identity p label (m + 1))))
                (enumerate 0 (case bbes of None \<Rightarrow> [] | Some bs \<Rightarrow> to_list bs))))"
proof -
  have 1: "process_backboneelements body bbes rt label pl pp False st
         = process_backboneelements body bbes rt label pl pp True
             (st\<lparr>requests := requests st @
                [DeleteNodeRelationshipNode (Some pl) pp (Some rt) [] (Some label) [] ''n2'']\<rparr>)"
    by (simp add: process_backboneelements_def)
  show ?thesis
  proof (cases bbes)
    case None
    with 1 show ?thesis by (simp add: process_backboneelements_def)
  next
    case (Some bs)
    with 1 process_backboneelements_loop_appends [OF assms, of 0 "to_list bs" rt label pl st]
    show ?thesis by (simp add: process_backboneelements_def)
  qed
qed

theorem process_backboneelements_identity_witness:
  "parent_key [(''fhir_id'', PStr ''p1'')] = Some (PStr ''p1'')
   \<and> (\<forall>b i ps s. (\<lambda>b i ps s. Inr (dict_set ''gender'' (PStr b) ps, s)) b i ps s
         = (Inr ((\<lambda>b i ps. dict_set ''gender'' (PStr b) ps) b i ps,
                 env_append s ((\<lambda>b i ps. empty_env) b i ps)) :: py_exc + dict \<times> env))
   \<and> process_backboneelements (\<lambda>b i ps s. Inr (dict_set ''gender'' (PStr b) ps, s))
        (Some (Lst [''male'', ''female''])) ''HAS_CONTACT'' ''PatientContact'' ''Patient''
        [(''fhir_id'', PStr ''p1'')] False empty_env
      = Inr \<lparr>node_merges = [],
          node_relationship_merges =
            [\<lparr>n1_label = [''Patient''], n1_identifiers = [(''fhir_id'', PStr ''p1'')],
              n2_label = [''PatientContact''], n2_additional_labels = [],
              n2_identifiers = [(''temp_id'', PStr ''p1_patientcontact1'')],
              n2_properties = [(''temp_id'', PStr ''p1_patientcontact1''),
                               (''gender'', PStr ''male'')],
              rel_type = ''HAS_CONTACT'', rel_properties = []\<rparr>,
             \<lparr>n1_label = [''Patient''], n1_identifiers = [(''fhir_id'', PStr ''p1'')],
              n2_label = [''PatientContact''], n2_additional_labels = [],
              n2_identifiers = [(''temp_id'', PStr ''p1_patientcontact2'')],
              n2_properties = [(''temp_id'', PStr ''p1_patientcontact2''),
                               (''gender'', PStr ''female'')],
              rel_type = ''HAS_CONTACT'', rel_properties = []\<rparr>],
          logged = [],
          requests = [DeleteNodeRelationshipNode (Some ''Patient'') [(''fhir_id'', PStr ''p1'')]
                        (Some ''HAS_CONTACT'') [] (Some ''PatientContact'') [] ''n2'']\<rparr>"
proof -
  have pk: "parent_key [(''fhir_id'', PStr ''p1'')] = Some (PStr ''p1'')"
    by (simp add: parent_key_def)
  have bd: "\<forall>b i ps s. (\<lambda>b i ps s. Inr (dict_set ''gender'' (PStr b) ps, s)) b i ps s
         = (Inr ((\<lambda>b i ps. dict_set ''gender'' (PStr b) ps) b i ps,
                 env_append s ((\<lambda>b i ps. empty_env) b i ps)) :: py_exc + dict \<times> env)"
    by (simp add: env_append_def empty_env_def)
  from process_backboneelements_identity [OF pk bd,
      of "Some (Lst [''male'', ''female''])" "''HAS_CONTACT''" "''PatientContact''" "''Patient''"
         empty_env]
  obtain st' where
    r: "process_backboneelements (\<lambda>b i ps s. Inr (dict_set ''gender'' (PStr b) ps, s))
        (Some (Lst [''male'', ''female''])) ''HAS_CONTACT'' ''PatientContact'' ''Patient''
        [(''fhir_id'', PStr ''p1'')] False empty_env
      = process_backboneelements (\<lambda>b i ps s. Inr (dict_set ''gender'' (PStr b) ps, s))
        (Some (Lst [''male'', ''female''])) ''HAS_CONTACT'' ''PatientContact'' ''Patient''
        [(''fhir_id'', PStr ''p1'')] True
        (empty_env\<lparr>requests := requests empty_env @
            [DeleteNodeRelationshipNode (Some ''Patient'') [(''fhir_id'', PStr ''p1'')]
               (Some ''HAS_CONTACT'') [] (Some ''PatientContact'') [] ''n2'']\<rparr>)"
    by blast
  have "process_backboneelements (\<lambda>b i ps s. Inr (dict_set ''gender'' (PStr b) ps, s))
        (Some (Lst [''male'', ''female''])) ''HAS_CONTACT'' ''PatientContact'' ''Patient''
        [(''fhir_id'', PStr ''p1'')] True
        (empty_env\<lparr>requests := requests empty_env @
            [DeleteNodeRelationshipNode (Some ''Patient'') [(''fhir_id'', PStr ''p1'')]
               (Some ''HAS_CONTACT'') [] (Some ''PatientContact'') [] ''n2'']\<rparr>)
     = Inr \<lparr>node_merges = [],
          node_relationship_merges =
            [\<lparr>n1_label = [''Patient''], n1_identifiers = [(''fhir_id'', PStr ''p1'')],
              n2_label = [''PatientContact''], n2_additional_labels = [],
              n2_identifiers = [(''temp_id'', PStr ''p1_patientcontact1'')],
              n2_properties = [(''temp_id'', PStr ''p1_patientcontact1''),
                               (''gender'', PStr ''male'')],
              rel_type = ''HAS_CONTACT'', rel_properties = []\<rparr>,
             \<lparr>n1_label = [''Patient''], n1_identifiers = [(''fhir_id'', PStr ''p1'')],
              n2_label = [''PatientContact''], n2_additional_labels = [],
              n2_identifiers = [(''temp_id'', PStr ''p1_patientcontact2'')],
              n2_properties = [(''temp_id'', PStr ''p1_patientcontact2''),
                               (''gender'', PStr ''female'')],
              rel_type = ''HAS_CONTACT'', rel_properties = []\<rparr>],
          logged = [],
          requests = [DeleteNodeRelationshipNode (Some ''Patient'') [(''fhir_id'', PStr ''p1'')]
                        (Some ''HAS_CONTACT'') [] (Some ''PatientContact'') [] ''n2'']\<rparr>"
    by (simp add: process_backboneelements_def to_list_def new_id_def format_value_def
        lower_def lower_char_def str_nat.simps digit_char_def dict_get_def
        append_node_relationship_merge_def empty_env_def)
  with r pk bd show ?thesis by simp
qed

section \<open>Properties of the deferred reference resolution\<close>

lemma dict_del_markers:
  assumes "to_be_processed \<in> fst ` set props" "''reference_type'' \<in> fst ` set props"
  shows "(case dict_del to_be_processed props of Inl exc \<Rightarrow> Inl exc
          | Inr p1 \<Rightarrow> dict_del ''reference_type'' p1) = Inr (non_marker_properties props)"
proof -
  have "''reference_type'' \<in> fst ` set (filter (\<lambda>(k', v). k' \<noteq> to_be_processed) props)"
    using assms(2) by (force simp: to_be_processed_def image_iff)
  then show ?thesis
    using assms(1)
    by (simp add: dict_del_def non_marker_properties_def case_prod_unfold conj_commute)
qed


lemma dict_get_PStr_key:
  assumes "dict_get d k = PStr x"
  shows "k \<in> fst ` set d"
proof (rule ccontr)
  assume "k \<notin> fst ` set d"
  then have "map_of d k = None" by (simp add: map_of_eq_None_iff)
  then have "dict_get d k = PNone" by (simp add: dict_get_def)
  with assms show False by simp
qed

lemma resolve_match_cases:
  "(dict_get (relationship_properties (match_r m)) ''reference_type'' \<noteq> PStr ''logical'' \<longrightarrow>
      resolve_match run_match m st
        = Inr (st\<lparr>messages := messages st @ [LogWarning not_logical_warning]\<rparr>))
   \<and> (dict_get (relationship_properties (match_r m)) ''reference_type'' = PStr ''logical''
        \<and> node_labels (match_n2 m) = l2 # ls2
        \<and> run_match (sent st) (Some l2) [] (Some ''IDENTIFIED_BY'') [] (Some ''Identifier'')
             [(''value'', dict_get (node_properties (match_n2 m)) ''identifier_value''),
              (''system'', dict_get (node_properties (match_n2 m)) ''identifier_system'')] = []
        \<longrightarrow>
      resolve_match run_match m st
        = Inr (st\<lparr>messages := messages st @ [LogWarning (not_found_warning l2)]\<rparr>))
   \<and> (dict_get (relationship_properties (match_r m)) ''reference_type'' = PStr ''logical''
        \<and> to_be_processed \<in> fst ` set (relationship_properties (match_r m))
        \<and> node_labels (match_n2 m) = l2 # ls2
        \<and> run_match (sent st) (Some l2) [] (Some ''IDENTIFIED_BY'') [] (Some ''Identifier'')
             [(''value'', dict_get (node_properties (match_n2 m)) ''identifier_value''),
              (''system'', dict_get (node_properties (match_n2 m)) ''identifier_system'')]
             = found # others
        \<and> node_labels (match_n1 m) = l1 # ls1
        \<and> node_properties (match_n1 m) \<noteq> []
        \<and> node_properties (match_n1 found) \<noteq> []
        \<longrightarrow>
      resolve_match run_match m st
        = Inr (st\<lparr>sent := sent st @
                 [MergeRelationship l1 (node_properties (match_n1 m))
                    l2 (node_properties (match_n1 found))
                    (relationship_type (match_r m))
                    (non_marker_properties (relationship_properties (match_r m))),
                  DeleteNodes l2
                    [(to_be_processed, PBool True),
                     (''identifier_value'',
                        dict_get (node_properties (match_n2 m)) ''identifier_value''),
                     (''identifier_system'',
                        dict_get (node_properties (match_n2 m)) ''identifier_system'')]],
               resolved := resolved st + 1,
               messages := messages st @ [LogInfo (resolved_info l1 l2)]\<rparr>))"
proof (intro conjI impI)
  assume "dict_get (relationship_properties (match_r m)) ''reference_type'' \<noteq> PStr ''logical''"
  then show "resolve_match run_match m st
        = Inr (st\<lparr>messages := messages st @ [LogWarning not_logical_warning]\<rparr>)"
    by (simp add: resolve_match_def)
next
  assume "dict_get (relationship_properties (match_r m)) ''reference_type'' = PStr ''logical''
        \<and> node_labels (match_n2 m) = l2 # ls2
        \<and> run_match (sent st) (Some l2) [] (Some ''IDENTIFIED_BY'') [] (Some ''Identifier'')
             [(''value'', dict_get (node_properties (match_n2 m)) ''identifier_value''),
              (''system'', dict_get (node_properties (match_n2 m)) ''identifier_system'')] = []"
  then show "resolve_match run_match m st
        = Inr (st\<lparr>messages := messages st @ [LogWarning (not_found_warning l2)]\<rparr>)"
    by (simp add: resolve_match_def first_label_def)
next
  assume a: "dict_get (relationship_properties (match_r m)) ''reference_type'' = PStr ''logical''
        \<and> to_be_processed \<in> fst ` set (relationship_properties (match_r m))
        \<and> node_labels (match_n2 m) = l2 # ls2
        \<and> run_match (sent st) (Some l2) [] (Some ''IDENTIFIED_BY'') [] (Some ''Identifier'')
             [(''value'', dict_get (node_properties (match_n2 m)) ''identifier_value''),
              (''system'', dict_get (node_properties (match_n2 m)) ''identifier_system'')]
             = found # others
        \<and> node_labels (match_n1 m) = l1 # ls1
        \<and> node_properties (match_n1 m) \<noteq> []
        \<and> node_properties (match_n1 found) \<noteq> []"
  then have k: "''reference_type'' \<in> fst ` set (relationship_properties (match_r m))"
    using dict_get_PStr_key by blast
  from a have t: "to_be_processed \<in> fst ` set (relationship_properties (match_r m))" by simp
  have d: "(case dict_del to_be_processed (relationship_properties (match_r m)) of
              Inl exc \<Rightarrow> Inl exc
            | Inr p1 \<Rightarrow> dict_del ''reference_type'' p1)
         = Inr (non_marker_properties (relationship_properties (match_r m)))"
    by (rule dict_del_markers [OF t k])
  then obtain p1 where
    p1: "dict_del to_be_processed (relationship_properties (match_r m)) = Inr p1"
    and p2: "dict_del ''reference_type'' p1
         = Inr (non_marker_properties (relationship_properties (match_r m)))"
    by (auto split: sum.splits)
  show "resolve_match run_match m st
        = Inr (st\<lparr>sent := sent st @
                 [MergeRelationship l1 (node_properties (match_n1 m))
                    l2 (node_properties (match_n1 found))
                    (relationship_type (match_r m))
                    (non_marker_properties (relationship_properties (match_r m))),
                  DeleteNodes l2
                    [(to_be_processed, PBool True),
                     (''identifier_value'',
                        dict_get (node_properties (match_n2 m)) ''identifier_value''),
                     (''identifier_system'',
                        dict_get (node_properties (match_n2 m)) ''identifier_system'')]],
               resolved := resolved st + 1,
               messages := messages st @ [LogInfo (resolved_info l1 l2)]\<rparr>)"
    using a p1 p2 by (simp add: resolve_match_def first_label_def)
qed

lemma resolve_match_step:
  assumes wf: "well_formed m"
    and fp: "\<forall>f \<in> set (target_query run_match (sent st) m). node_properties (match_n1 f) \<noteq> []"
  shows "resolve_match run_match m st
    = Inr (st\<lparr>sent := sent st @ resolution run_match (sent st) m,
             resolved := resolved st + length (resolution run_match (sent st) m) div 2,
             messages := messages st @ [resolution_message run_match (sent st) m]\<rparr>)"
proof (cases "is_logical m")
  case False
  then show ?thesis
    by (simp add: resolve_match_def is_logical_def resolution_def resolution_message_def)
next
  case True
  from wf obtain l1 ls1 l2 ls2 where l1: "node_labels (match_n1 m) = l1 # ls1"
    and l2: "node_labels (match_n2 m) = l2 # ls2"
    by (auto simp: well_formed_def neq_Nil_conv)
  show ?thesis
  proof (cases "target_query run_match (sent st) m")
    case Nil
    with True l1 l2 show ?thesis
      by (simp add: resolve_match_def is_logical_def resolution_def resolution_message_def
          target_query_def first_label_def)
  next
    case (Cons found others)
    with fp have fprops: "node_properties (match_n1 found) \<noteq> []" by simp
    from wf have nprops: "node_properties (match_n1 m) \<noteq> []"
      and t: "to_be_processed \<in> fst ` set (relationship_properties (match_r m))"
      by (simp_all add: well_formed_def)
    from True have k: "''reference_type'' \<in> fst ` set (relationship_properties (match_r m))"
      using dict_get_PStr_key [of _ "''reference_type''" "''logical''"]
      by (simp add: is_logical_def)
    from dict_del_markers [OF t k] obtain p1 where
      p1: "dict_del to_be_processed (relationship_properties (match_r m)) = Inr p1"
      and p2: "dict_del ''reference_type'' p1
           = Inr (non_marker_properties (relationship_properties (match_r m)))"
      by (auto split: sum.splits)
    from Cons l2 have q: "run_match (sent st) (Some l2) [] (Some ''IDENTIFIED_BY'') []
        (Some ''Identifier'')
        [(''value'', dict_get (node_properties (match_n2 m)) ''identifier_value''),
         (''system'', dict_get (node_properties (match_n2 m)) ''identifier_system'')]
        = found # others"
      by (simp add: target_query_def)
    from True have lg: "dict_get (relationship_properties (match_r m)) ''reference_type''
        = PStr ''logical''"
      by (simp add: is_logical_def)
    show ?thesis
      using Cons l1 l2 q lg p1 p2 fprops nprops True
      by (simp add: resolve_match_def resolution_def resolution_message_def first_label_def)
  qed
qed

lemma resolve_loop_pass:
  assumes wf: "\<forall>m \<in> set ms. well_formed m"
    and fp: "\<forall>h m f. f \<in> set (target_query run_match h m) \<longrightarrow> node_properties (match_n1 f) \<noteq> []"
  shows "\<exists>st'. resolve_loop run_match ms st = Inr st'
      \<and> sent st' = sent st @ resolutions run_match (sent st) ms
      \<and> messages st' = messages st @ resolution_messages run_match (sent st) ms
      \<and> 2 * resolved st' = 2 * resolved st + length (resolutions run_match (sent st) ms)"
  using wf
proof (induction ms arbitrary: st)
  case Nil
  then show ?case by simp
next
  case (Cons m ms)
  let ?st1 = "st\<lparr>sent := sent st @ resolution run_match (sent st) m,
             resolved := resolved st + length (resolution run_match (sent st) m) div 2,
             messages := messages st @ [resolution_message run_match (sent st) m]\<rparr>"
  have step: "resolve_match run_match m st = Inr ?st1"
    using Cons.prems fp by (intro resolve_match_step) auto
  have even: "2 * (length (resolution run_match (sent st) m) div 2)
      = length (resolution run_match (sent st) m)"
    by (simp add: resolution_def split: list.splits)
  from Cons.IH [of ?st1] Cons.prems obtain st' where
    r: "resolve_loop run_match ms ?st1 = Inr st'"
    and s: "sent st' = sent ?st1 @ resolutions run_match (sent ?st1) ms"
    and g: "messages st' = messages ?st1 @ resolution_messages run_match (sent ?st1) ms"
    and c: "2 * resolved st' = 2 * resolved ?st1 + length (resolutions run_match (sent ?st1) ms)"
    by auto
  show ?case
    using step r s g c even by simp
qed

text \<open>
  Claim C6. In the pass, a pending relationship whose \<open>reference_type\<close> is not
  \<open>logical\<close> is only logged: no request is sent for it. For a logical one whose real
  target node is found, the relationship that is merged from the origin node to the real
  node has the type of the original relationship and its properties without the two
  marker keys, and the placeholder is deleted by its label, the marker flag and the
  stored pair of identifier value and system. When no real node is found a warning is
  logged and nothing is sent. The whole pass, on matches that have labels and
  properties, returns; the requests it sent are those of its matches in order, two for
  each resolved match, and it logs one entry for each match.
\<close>

theorem resolve_references_outcomes:
  "((dict_get (relationship_properties (match_r m)) ''reference_type'' \<noteq> PStr ''logical'' \<longrightarrow>
      resolve_match run_match m st
        = Inr (st\<lparr>messages := messages st @ [LogWarning not_logical_warning]\<rparr>))
   \<and> (dict_get (relationship_properties (match_r m)) ''reference_type'' = PStr ''logical''
        \<and> node_labels (match_n2 m) = l2 # ls2
        \<and> run_match (sent st) (Some l2) [] (Some ''IDENTIFIED_BY'') [] (Some ''Identifier'')
             [(''value'', dict_get (node_properties (match_n2 m)) ''identifier_value''),
              (''system'', dict_get (node_properties (match_n2 m)) ''identifier_system'')] = []
        \<longrightarrow>
      resolve_match run_match m st
        = Inr (st\<lparr>messages := messages st @ [LogWarning (not_found_warning l2)]\<rparr>))
   \<and> (dict_get (relationship_properties (match_r m)) ''reference_type'' = PStr ''logical''
        \<and> to_be_processed \<in> fst ` set (relationship_properties (match_r m))
        \<and> node_labels (match_n2 m) = l2 # ls2
        \<and> run_match (sent st) (Some l2) [] (Some ''IDENTIFIED_BY'') [] (Some ''Identifier'')
             [(''value'', dict_get (node_properties (match_n2 m)) ''identifier_value''),
              (''system'', dict_get (node_properties (match_n2 m)) ''identifier_system'')]
             = found # others
        \<and> node_labels (match_n1 m) = l1 # ls1
        \<and> node_properties (match_n1 m) \<noteq> []
        \<and> node_properties (match_n1 found) \<noteq> []
        \<longrightarrow>
      resolve_match run_match m st
        = Inr (st\<lparr>sent := sent st @
                 [MergeRelationship l1 (node_properties (match_n1 m))
                    l2 (node_properties (match_n1 found))
                    (relationship_type (match_r m))
                    (non_marker_properties (relationship_properties (match_r m))),
                  DeleteNodes l2
                    [(to_be_processed, PBool True),
                     (''identifier_value'',
                        dict_get (node_properties (match_n2 m)) ''identifier_value''),
                     (''identifier_system'',
                        dict_get (node_properties (match_n2 m)) ''identifier_system'')]],
               resolved := resolved st + 1,
               messages := messages st @ [LogInfo (resolved_info l1 l2)]\<rparr>)))
   \<and> (\<not> is_logical m' \<longrightarrow> resolution run_match h m' = [])
   \<and> ((\<forall>m \<in> set (run_match [] None [] None [(to_be_processed, PBool True)] None []).
          well_formed m)
        \<and> (\<forall>h m f. f \<in> set (target_query run_match h m) \<longrightarrow> node_properties (match_n1 f) \<noteq> [])
        \<longrightarrow>
        (\<exists>final. resolve_references run_match = Inr final
           \<and> sent final = resolutions run_match []
                (run_match [] None [] None [(to_be_processed, PBool True)] None [])
           \<and> messages final =
                (if run_match [] None [] None [(to_be_processed, PBool True)] None [] = []
                 then []
                 else LogInfo (found_info
                        (length (run_match [] None [] None [(to_be_processed, PBool True)] None [])))
                      # resolution_messages run_match []
                          (run_match [] None [] None [(to_be_processed, PBool True)] None []))
           \<and> 2 * resolved final = length (sent final)))"
proof -
  have pass: "(\<forall>m \<in> set (run_match [] None [] None [(to_be_processed, PBool True)] None []).
          well_formed m)
        \<and> (\<forall>h m f. f \<in> set (target_query run_match h m) \<longrightarrow> node_properties (match_n1 f) \<noteq> [])
        \<longrightarrow>
        (\<exists>final. resolve_references run_match = Inr final
           \<and> sent final = resolutions run_match []
                (run_match [] None [] None [(to_be_processed, PBool True)] None [])
           \<and> messages final =
                (if run_match [] None [] None [(to_be_processed, PBool True)] None [] = []
                 then []
                 else LogInfo (found_info
                        (length (run_match [] None [] None [(to_be_processed, PBool True)] None [])))
                      # resolution_messages run_match []
                          (run_match [] None [] None [(to_be_processed, PBool True)] None []))
           \<and> 2 * resolved final = length (sent final))"
  proof
    let ?res1 = "run_match [] None [] None [(to_be_processed, PBool True)] None []"
    assume h: "(\<forall>m \<in> set ?res1. well_formed m)
        \<and> (\<forall>h m f. f \<in> set (target_query run_match h m) \<longrightarrow> node_properties (match_n1 f) \<noteq> [])"
    show "\<exists>final. resolve_references run_match = Inr final
           \<and> sent final = resolutions run_match [] ?res1
           \<and> messages final =
                (if ?res1 = [] then []
                 else LogInfo (found_info (length ?res1))
                      # resolution_messages run_match [] ?res1)
           \<and> 2 * resolved final = length (sent final)"
    proof (cases "?res1 = []")
      case True
      then show ?thesis by (simp add: resolve_references_def)
    next
      case False
      from h have wf: "\<forall>m \<in> set ?res1. well_formed m"
        and fp: "\<forall>h m f. f \<in> set (target_query run_match h m)
                   \<longrightarrow> node_properties (match_n1 f) \<noteq> []"
        by blast+
      from resolve_loop_pass [OF wf fp,
          of "\<lparr>sent = [], messages = [LogInfo (found_info (length ?res1))], resolved = 0\<rparr>"]
      obtain st' where
        "resolve_loop run_match ?res1
           \<lparr>sent = [], messages = [LogInfo (found_info (length ?res1))], resolved = 0\<rparr> = Inr st'"
        "sent st' = resolutions run_match [] ?res1"
        "messages st' = LogInfo (found_info (length ?res1)) # resolution_messages run_match [] ?res1"
        "2 * resolved st' = length (resolutions run_match [] ?res1)"
        by auto
      with False show ?thesis by (simp add: resolve_references_def Let_def)
    qed
  qed
  have nl: "\<not> is_logical m' \<longrightarrow> resolution run_match h m' = []"
    by (simp add: resolution_def)
  from resolve_match_cases [of m run_match st l2 ls2 found others l1 ls1] nl pass
  show ?thesis by blast
qed


theorem resolve_references_outcomes_witness:
  "resolve_references example_store
     = Inr \<lparr>sent =
              [MergeRelationship ''Condition'' [(''fhir_id'', PStr ''c1'')]
                 ''Patient'' [(''fhir_id'', PStr ''p9'')] ''HAS_SUBJECT''
                 [(''since'', PStr ''2020'')],
               DeleteNodes ''Patient''
                 [(to_be_processed, PBool True), (''identifier_value'', PStr ''123''),
                  (''identifier_system'', PStr ''urn:sys'')]],
            messages = [LogInfo (found_info 1), LogInfo (resolved_info ''Condition'' ''Patient'')],
            resolved = 1\<rparr>
   \<and> resolve_match example_store pending \<lparr>sent = [], messages = [], resolved = 0\<rparr>
       = Inr \<lparr>sent =
                [MergeRelationship ''Condition'' [(''fhir_id'', PStr ''c1'')]
                   ''Patient'' [(''fhir_id'', PStr ''p9'')] ''HAS_SUBJECT''
                   [(''since'', PStr ''2020'')],
                 DeleteNodes ''Patient''
                   [(to_be_processed, PBool True), (''identifier_value'', PStr ''123''),
                    (''identifier_system'', PStr ''urn:sys'')]],
              messages = [LogInfo (resolved_info ''Condition'' ''Patient'')],
              resolved = 1\<rparr>"
proof -
  have res1: "example_store [] None [] None [(to_be_processed, PBool True)] None [] = [pending]"
    by (simp add: example_store_def)
  have wf: "\<forall>m \<in> set (example_store [] None [] None [(to_be_processed, PBool True)] None []).
      well_formed m"
    by (simp add: res1 well_formed_def pending_def)
  have fp: "\<forall>h m f. f \<in> set (target_query example_store h m)
      \<longrightarrow> node_properties (match_n1 f) \<noteq> []"
    by (auto simp: target_query_def example_store_def real_target_def to_be_processed_def
        split: list.splits if_splits)
  have tq: "target_query example_store [] pending = [real_target]"
    by (simp add: target_query_def example_store_def pending_def dict_get_def
        to_be_processed_def)
  have lg: "is_logical pending"
    by (simp add: is_logical_def pending_def dict_get_def to_be_processed_def)
  note inst = resolve_references_outcomes [of pending example_store
      "\<lparr>sent = [], messages = [], resolved = 0\<rparr>" "''Patient''" "[]" real_target "[]"
      "''Condition''" "[]" pending "[]"]
  from inst wf fp obtain final where
    f: "resolve_references example_store = Inr final"
    and s: "sent final = resolutions example_store [] [pending]"
    and g: "messages final = LogInfo (found_info 1) # resolution_messages example_store [] [pending]"
    and c: "2 * resolved final = length (sent final)"
    by (auto simp: res1)
  have s': "sent final =
              [MergeRelationship ''Condition'' [(''fhir_id'', PStr ''c1'')]
                 ''Patient'' [(''fhir_id'', PStr ''p9'')] ''HAS_SUBJECT''
                 [(''since'', PStr ''2020'')],
               DeleteNodes ''Patient''
                 [(to_be_processed, PBool True), (''identifier_value'', PStr ''123''),
                  (''identifier_system'', PStr ''urn:sys'')]]"
    using s lg tq
    by (simp add: resolution_def pending_def real_target_def dict_get_def
        non_marker_properties_def to_be_processed_def)
  have g': "messages final
      = [LogInfo (found_info 1), LogInfo (resolved_info ''Condition'' ''Patient'')]"
    using g lg tq by (simp add: resolution_message_def pending_def)
  from c s' have c': "resolved final = 1" by simp
  have whole: "resolve_references example_store
     = Inr \<lparr>sent =
              [MergeRelationship ''Condition'' [(''fhir_id'', PStr ''c1'')]
                 ''Patient'' [(''fhir_id'', PStr ''p9'')] ''HAS_SUBJECT''
                 [(''since'', PStr ''2020'')],
               DeleteNodes ''Patient''
                 [(to_be_processed, PBool True), (''identifier_value'', PStr ''123''),
                  (''identifier_system'', PStr ''urn:sys'')]],
            messages = [LogInfo (found_info 1), LogInfo (resolved_info ''Condition'' ''Patient'')],
            resolved = 1\<rparr>"
    using f s' g' c' by (cases final) simp
  have one: "resolve_match example_store pending \<lparr>sent = [], messages = [], resolved = 0\<rparr>
       = Inr \<lparr>sent =
                [MergeRelationship ''Condition'' [(''fhir_id'', PStr ''c1'')]
                   ''Patient'' [(''fhir_id'', PStr ''p9'')] ''HAS_SUBJECT''
                   [(''since'', PStr ''2020'')],
                 DeleteNodes ''Patient''
                   [(to_be_processed, PBool True), (''identifier_value'', PStr ''123''),
                    (''identifier_system'', PStr ''urn:sys'')]],
              messages = [LogInfo (resolved_info ''Condition'' ''Patient'')],
              resolved = 1\<rparr>"
    using inst
    by (simp add: pending_def real_target_def example_store_def dict_get_def
        non_marker_properties_def to_be_processed_def)
  from whole one show ?thesis by simp
qed

section \<open>Properties of the ingestion pipeline\<close>







end
